theory Spec2Isabelle
  imports Main
begin

section \<open>The online processor and the tracker remover of searx\<close>

text \<open>
  A shallow embedding of \<^verbatim>\<open>searx/search/processors/online.py\<close> and
  \<^verbatim>\<open>searx/plugins/tracker_url_remover.py\<close>.

  Python dictionaries read with \<^verbatim>\<open>d[k]\<close> raise \<^verbatim>\<open>KeyError\<close> on a missing key;
  the request parameters are therefore a record whose every field is an option,
  \<open>None\<close> standing for a key that is not in the dictionary. Exceptions are values of the
  type \<open>exn\<close>; a function that may raise returns \<open>exn + 'a\<close>. Everything the
  processor does to the outside (transport calls, recorded errors, handled exceptions,
  merged results) is logged in the record \<open>world\<close>, which is passed through.
\<close>

subsection \<open>Exceptions\<close>

text \<open>
  One constructor for each class that an \<^verbatim>\<open>except\<close> clause of
  \<^verbatim>\<open>OnlineProcessor.search\<close> names, the three built-in exceptions the code itself can
  raise, \<open>OtherException\<close> for every other subclass of \<^verbatim>\<open>Exception\<close>, and
  \<open>NonException\<close> for what derives from \<^verbatim>\<open>BaseException\<close> but not from
  \<^verbatim>\<open>Exception\<close> (\<^verbatim>\<open>KeyboardInterrupt\<close>, \<^verbatim>\<open>SystemExit\<close>,
  \<^verbatim>\<open>asyncio.CancelledError\<close>), which \<^verbatim>\<open>except Exception\<close> does not catch.
\<close>

datatype exn =
    SSLError
  | TimeoutException
  | AsyncioTimeoutError
  | HTTPError
  | StreamError
  | SearxEngineCaptchaException
  | SearxEngineTooManyRequestsException
  | SearxEngineAccessDeniedException
  | KeyError string
  | TypeError
  | IndexError
  | OtherException string
  | NonException string

definition bind_exn :: "exn + 'a \<Rightarrow> ('a \<Rightarrow> exn + 'b) \<Rightarrow> exn + 'b" where
  "bind_exn m f = (case m of Inl e \<Rightarrow> Inl e | Inr x \<Rightarrow> f x)"

text \<open>\<^verbatim>\<open>d[k]\<close>: the value of a key, or \<^verbatim>\<open>KeyError\<close>.\<close>

definition subscript :: "string \<Rightarrow> 'a option \<Rightarrow> exn + 'a" where
  "subscript k v = (case v of None \<Rightarrow> Inl (KeyError k) | Some x \<Rightarrow> Inr x)"

subsection \<open>Request parameters\<close>

type_synonym dict = "(string \<times> string) list"

fun dict_set :: "string \<Rightarrow> string \<Rightarrow> dict \<Rightarrow> dict" where
  "dict_set k v [] = [(k, v)]"
| "dict_set k v ((k', v') # d) = (if k' = k then (k, v) # d else (k', v') # dict_set k v d)"

definition dict_get :: "dict \<Rightarrow> string \<Rightarrow> string option" where
  "dict_get d k = map_of d k"

text \<open>The value of \<^verbatim>\<open>verify\<close> when it is not \<^verbatim>\<open>None\<close>: \<^verbatim>\<open>False\<close> or a path.\<close>

datatype verify_value = VerifyFalse | VerifyPath string

text \<open>
  \<^verbatim>\<open>OnlineParams\<close>: the keys of \<^verbatim>\<open>HTTPParams\<close> and the two keys of
  \<^verbatim>\<open>RequestParams\<close> that this module reads. For \<open>p_verify\<close> and \<open>p_auth\<close> the outer
  option is the presence of the key and the inner one Python's \<^verbatim>\<open>None\<close>.
\<close>

record online_params =
  p_method :: "string option"
  p_headers :: "dict option"
  p_data :: "dict option"
  p_json :: "dict option"
  p_content :: "string option"
  p_url :: "string option"
  p_cookies :: "dict option"
  p_allow_redirects :: "bool option"
  p_max_redirects :: "int option"
  p_soft_max_redirects :: "int option"
  p_auth :: "string option option"
  p_verify :: "verify_value option option"
  p_raise_for_httperror :: "bool option"
  p_query :: "string option"
  p_category :: "string option"

text \<open>
  \<^verbatim>\<open>default_request_params()\<close>. The two keys \<open>query\<close> and \<open>category\<close> are not
  among the defaults; they come from the base parameters.
\<close>

definition default_request_params :: online_params where
  "default_request_params =
     \<lparr> p_method = Some ''GET'',
       p_headers = Some [],
       p_data = Some [],
       p_json = Some [],
       p_content = Some [],
       p_url = Some [],
       p_cookies = Some [],
       p_allow_redirects = Some False,
       p_max_redirects = Some 0,
       p_soft_max_redirects = Some 0,
       p_auth = Some None,
       p_verify = Some None,
       p_raise_for_httperror = Some True,
       p_query = None,
       p_category = None \<rparr>"

subsection \<open>Transport\<close>

text \<open>
  The keyword arguments of the transport call, the dictionary \<^verbatim>\<open>request_args\<close>. A
  field that is \<open>None\<close> is a keyword that is not passed. \<open>ra_auth\<close> and \<open>ra_verify\<close>
  hold the value that is passed, which for \<open>ra_auth\<close> may be Python's \<^verbatim>\<open>None\<close>.
\<close>

record request_args =
  ra_headers :: "dict option"
  ra_cookies :: "dict option"
  ra_auth :: "string option option"
  ra_verify :: "verify_value option"
  ra_max_redirects :: "int option"
  ra_allow_redirects :: "bool option"
  ra_raise_for_httperror :: "bool option"
  ra_data :: "dict option"
  ra_json :: "dict option"
  ra_content :: "string option"

datatype response =
  Response (status_code: int) (reason_phrase: string) (url_host: string)
           (history: "response list") (body: string)

datatype verb = GET | POST

text \<open>One call of \<^verbatim>\<open>searx.network.get\<close> or \<^verbatim>\<open>searx.network.post\<close>.\<close>

record net_call =
  nc_verb :: verb
  nc_url :: string
  nc_args :: request_args

text \<open>One call of \<^verbatim>\<open>count_error\<close>.\<close>

record incident =
  i_engine :: string
  i_message :: string
  i_context :: "string \<times> string \<times> string"
  i_secondary :: bool


subsection \<open>Results\<close>

text \<open>
  \<^verbatim>\<open>_get_property(thing, "url", default)\<close> tells three cases apart: the key or attribute
  is missing (the default is returned), it holds \<^verbatim>\<open>None\<close>, or it holds a string.
\<close>

datatype url_field = UrlMissing | UrlNone | UrlStr string

text \<open>The six components of \<^verbatim>\<open>urllib.parse.ParseResult\<close>.\<close>

record parse_result =
  pr_scheme :: string
  pr_netloc :: string
  pr_path :: string
  pr_params :: string
  pr_query :: string
  pr_fragment :: string

datatype result =
  Result (r_url: url_field) (r_parsed_url: "parse_result option")
         (r_sitelinks: "result list option")

fun set_url :: "url_field \<Rightarrow> result \<Rightarrow> result" where
  "set_url u (Result _ pu sl) = Result u pu sl"

fun set_parsed_url :: "parse_result option \<Rightarrow> result \<Rightarrow> result" where
  "set_parsed_url pu (Result u _ sl) = Result u pu sl"

fun set_sitelinks :: "result list option \<Rightarrow> result \<Rightarrow> result" where
  "set_sitelinks sl (Result u pu _) = Result u pu sl"

subsection \<open>The world and the environment\<close>

text \<open>
  \<open>net_calls\<close>: the transport calls made, in order. \<open>errors\<close>: the calls of
  \<^verbatim>\<open>count_error\<close>. \<open>handled\<close>: the calls of \<^verbatim>\<open>handle_exception\<close>, each with its
  \<^verbatim>\<open>suspend\<close> argument. \<open>container\<close>: the result lists merged into the result
  container. \<open>basic_searches\<close>: the query of every call of \<^verbatim>\<open>_search_basic\<close>, logged on
  entry.
\<close>

record world =
  net_calls :: "net_call list"
  errors :: "incident list"
  handled :: "(exn \<times> bool) list"
  container :: "result list list"
  basic_searches :: "string list"

text \<open>One entry of the setting \<^verbatim>\<open>force_sitelink_websites\<close>.\<close>

record site =
  website_url_expression :: string
  website_search_terms :: "string list"

record babel_locale =
  language :: string
  territory :: "string option"

record search_query =
  sq_locale :: "babel_locale option"

text \<open>
  The values of the keys \<^verbatim>\<open>headers\<close>, \<^verbatim>\<open>data\<close>, \<^verbatim>\<open>json\<close> and \<^verbatim>\<open>cookies\<close> are
  dictionaries, which \<^verbatim>\<open>engine.request\<close> may change in place. \<^verbatim>\<open>params.copy()\<close> is a
  shallow copy: the copy and the original hold the same four dictionaries, so what a call
  on the copy writes into them shows in the original too. A \<open>shared_dicts\<close> holds the
  contents, after a call of \<^verbatim>\<open>engine.request\<close>, of the dictionaries that the four keys
  held when it was called (\<open>None\<close>: the key held no dictionary), and \<open>write_back\<close>
  carries them into another dictionary of parameters that holds the same objects.
\<close>

record shared_dicts =
  sd_headers :: "dict option"
  sd_data :: "dict option"
  sd_json :: "dict option"
  sd_cookies :: "dict option"

definition shared_value :: "dict option \<Rightarrow> dict option \<Rightarrow> dict option" where
  "shared_value held after =
     (case held of
        None \<Rightarrow> None
      | Some d \<Rightarrow> (case after of None \<Rightarrow> Some d | Some d' \<Rightarrow> Some d'))"

definition write_back :: "shared_dicts \<Rightarrow> online_params \<Rightarrow> online_params" where
  "write_back shared params =
     params
       \<lparr> p_headers := shared_value (p_headers params) (sd_headers shared),
         p_data := shared_value (p_data params) (sd_data shared),
         p_json := shared_value (p_json params) (sd_json shared),
         p_cookies := shared_value (p_cookies params) (sd_cookies shared) \<rparr>"

text \<open>
  What the processor is given: the engine (its name, its flag
  \<^verbatim>\<open>send_accept_language_header\<close>, its functions \<^verbatim>\<open>request\<close> and \<^verbatim>\<open>response\<close>), the
  transport (\<^verbatim>\<open>searx.network.get\<close> and \<^verbatim>\<open>post\<close>, which see the calls made before),
  the regular expression library, the user agent that \<^verbatim>\<open>gen_useragent()\<close> returns, the
  \<^verbatim>\<open>get_params\<close> of the base class, and the two settings of the sitelink enrichment
  (\<open>None\<close>: the key is not in the settings).

  \<^verbatim>\<open>engine.request\<close> changes the parameters in place: \<open>engine_request\<close> returns the
  parameters as the call leaves them, and the contents it leaves in the dictionaries
  that the parameters held. \<^verbatim>\<open>re.match(expression, string)\<close> compiles the expression
  first: \<open>re_compile\<close> is the exception this raises, if any (\<^verbatim>\<open>re.error\<close> for an
  expression that is not valid), and \<open>re_match\<close> tells whether a valid expression matches
  at the start of a string. \<open>network_context\<close> is the exception, if any, that the three
  calls of \<^verbatim>\<open>init_network_in_thread\<close> into \<^verbatim>\<open>searx.network\<close> raise, and
  \<open>network_verify\<close> is the outcome of evaluating
  \<^verbatim>\<open>searx.network.get_network(self.engine.name).verify\<close>, which the handler of the TLS
  errors puts into its log message.
\<close>

record env =
  engine_name :: string
  send_accept_language_header :: bool
  engine_request :: "string \<Rightarrow> online_params \<Rightarrow> exn + (online_params \<times> shared_dicts)"
  engine_response :: "response \<Rightarrow> online_params \<Rightarrow> exn + result list"
  network_get :: "net_call list \<Rightarrow> string \<Rightarrow> request_args \<Rightarrow> exn + response"
  network_post :: "net_call list \<Rightarrow> string \<Rightarrow> request_args \<Rightarrow> exn + response"
  network_context :: "exn option"
  network_verify :: "exn + string"
  re_compile :: "string \<Rightarrow> exn option"
  re_match :: "string \<Rightarrow> string \<Rightarrow> bool"
  gen_useragent :: string
  base_get_params :: "search_query \<Rightarrow> string \<Rightarrow> (string \<times> string) option"
  force_sitelinks_categories :: "string list option"
  force_sitelink_websites :: "site list option"

subsection \<open>Formatting integers\<close>

fun str_nat :: "nat \<Rightarrow> string" where
  "str_nat n =
     (if n < 10 then [''0123456789'' ! n]
      else str_nat (n div 10) @ [''0123456789'' ! (n mod 10)])"

declare str_nat.simps [simp del]

definition str_int :: "int \<Rightarrow> string" where
  "str_int i = (if i < 0 then CHR ''-'' # str_nat (nat (- i)) else str_nat (nat i))"

subsection \<open>HTTP dispatch\<close>

text \<open>
  The part of \<^verbatim>\<open>_send_http_request\<close> before the transport call: it reads the
  parameters and returns the verb, the URL, the keyword arguments and the soft limit of
  redirects. The source reads \<^verbatim>\<open>headers\<close>, \<^verbatim>\<open>cookies\<close>, \<^verbatim>\<open>auth\<close>, \<^verbatim>\<open>method\<close>,
  the three bodies (for a method other than \<^verbatim>\<open>GET\<close>) and \<^verbatim>\<open>url\<close> with
  \<^verbatim>\<open>params[k]\<close>, in this order, and the other keys with \<^verbatim>\<open>params.get\<close> or
  \<^verbatim>\<open>in\<close>.
\<close>

definition soft_limit :: "online_params \<Rightarrow> int" where
  \<comment> \<open>\<^verbatim>\<open>params.get("soft_max_redirects", max_redirects or 0)\<close>\<close>
  "soft_limit params =
     (case p_soft_max_redirects params of
        Some s \<Rightarrow> s
      | None \<Rightarrow> (case p_max_redirects params of
                   None \<Rightarrow> 0
                 | Some m \<Rightarrow> if m \<noteq> 0 then m else 0))"

definition common_args ::
  "dict \<Rightarrow> dict \<Rightarrow> string option \<Rightarrow> online_params \<Rightarrow> request_args" where
  \<comment> \<open>the keyword arguments that do not depend on the method\<close>
  "common_args headers cookies auth params =
     \<lparr> ra_headers = Some headers,
       ra_cookies = Some cookies,
       ra_auth = Some auth,
       ra_verify = (case p_verify params of None \<Rightarrow> None | Some v \<Rightarrow> v),
       ra_max_redirects =
         (case p_max_redirects params of
            None \<Rightarrow> None
          | Some m \<Rightarrow> if m \<noteq> 0 then Some m else None),
       ra_allow_redirects = p_allow_redirects params,
       ra_raise_for_httperror =
         Some (case p_raise_for_httperror params of None \<Rightarrow> True | Some b \<Rightarrow> b),
       ra_data = None,
       ra_json = None,
       ra_content = None \<rparr>"

definition with_bodies :: "dict \<Rightarrow> dict \<Rightarrow> string \<Rightarrow> request_args \<Rightarrow> request_args" where
  \<comment> \<open>the three tests of the \<^verbatim>\<open>else\<close> branch: each body that is not empty is attached\<close>
  "with_bodies data json content request_args =
     request_args
       \<lparr> ra_data := (if data \<noteq> [] then Some data else None),
         ra_json := (if json \<noteq> [] then Some json else None),
         ra_content := (if content \<noteq> [] then Some content else None) \<rparr>"

definition prepare_request ::
  "online_params \<Rightarrow> exn + (verb \<times> string \<times> request_args \<times> int)" where
  "prepare_request params =
     bind_exn (subscript ''headers'' (p_headers params)) (\<lambda>headers.
     bind_exn (subscript ''cookies'' (p_cookies params)) (\<lambda>cookies.
     bind_exn (subscript ''auth'' (p_auth params)) (\<lambda>auth.
     bind_exn (subscript ''method'' (p_method params)) (\<lambda>method.
       if method = ''GET'' then
         bind_exn (subscript ''url'' (p_url params)) (\<lambda>url.
           Inr (GET, url, common_args headers cookies auth params, soft_limit params))
       else
         bind_exn (subscript ''data'' (p_data params)) (\<lambda>data.
         bind_exn (subscript ''json'' (p_json params)) (\<lambda>json.
         bind_exn (subscript ''content'' (p_content params)) (\<lambda>content.
         bind_exn (subscript ''url'' (p_url params)) (\<lambda>url.
           Inr (POST, url,
                with_bodies data json content (common_args headers cookies auth params),
                soft_limit params)))))))))"

text \<open>The call of \<^verbatim>\<open>count_error\<close> for a response with too many redirects.\<close>

definition redirect_incident :: "env \<Rightarrow> response \<Rightarrow> int \<Rightarrow> incident" where
  "redirect_incident ev response soft_max_redirects =
     \<lparr> i_engine = engine_name ev,
       i_message = str_nat (length (history response)) @ '' redirects, maximum: ''
                   @ str_int soft_max_redirects,
       i_context = (if status_code response = 0 then [] else str_int (status_code response),
                    reason_phrase response,
                    url_host response),
       i_secondary = True \<rparr>"

definition send_http_request ::
  "env \<Rightarrow> online_params \<Rightarrow> world \<Rightarrow> (exn + response) \<times> world" where
  "send_http_request ev params w =
     (case prepare_request params of
        Inl e \<Rightarrow> (Inl e, w)
      | Inr (verb, url, request_args, soft_max_redirects) \<Rightarrow>
          let w1 = w\<lparr>net_calls := net_calls w
                       @ [\<lparr>nc_verb = verb, nc_url = url, nc_args = request_args\<rparr>]\<rparr>
          in (case (if verb = GET then network_get ev else network_post ev)
                     (net_calls w) url request_args of
                Inl e \<Rightarrow> (Inl e, w1)
              | Inr response \<Rightarrow>
                  if int (length (history response)) > soft_max_redirects
                  then (Inr response,
                        w1\<lparr>errors := errors w1
                             @ [redirect_incident ev response soft_max_redirects]\<rparr>)
                  else (Inr response, w1)))"


subsection \<open>The request parameter builder\<close>

text \<open>
  \<^verbatim>\<open>get_params\<close>. The \<^verbatim>\<open>get_params\<close> of the base class returns \<^verbatim>\<open>None\<close> or the base
  parameters, of which this module reads the query and the category; they are laid over
  the defaults.
\<close>

definition get_params ::
  "env \<Rightarrow> search_query \<Rightarrow> string \<Rightarrow> exn + online_params option" where
  "get_params ev search_query engine_category =
     (case base_get_params ev search_query engine_category of
        None \<Rightarrow> Inr None
      | Some (query, category) \<Rightarrow>
          let params = default_request_params
                         \<lparr>p_query := Some query, p_category := Some category\<rparr>
          in bind_exn (subscript ''headers'' (p_headers params)) (\<lambda>headers.
               let headers = dict_set ''User-Agent'' (gen_useragent ev) headers;
                   headers =
                     (if send_accept_language_header ev \<and> sq_locale search_query \<noteq> None
                      then (case sq_locale search_query of
                              None \<Rightarrow> headers
                            | Some loc \<Rightarrow>
                                let ac_lang =
                                  (case territory loc of
                                     None \<Rightarrow> language loc
                                   | Some terr \<Rightarrow>
                                       if terr \<noteq> []
                                       then language loc @ ''-'' @ terr @ '','' @ language loc
                                            @ '';q=0.9,*;q=0.5''
                                       else language loc)
                                in dict_set ''Accept-Language'' ac_lang headers)
                      else headers)
               in Inr (Some (params\<lparr>p_headers := Some headers\<rparr>))))"

subsection \<open>The basic search\<close>

text \<open>
  \<^verbatim>\<open>_search_basic\<close>. It returns the results (\<open>None\<close> for an empty URL), the
  parameters as \<^verbatim>\<open>engine.request\<close> left them, since the caller goes on with the same
  dictionary, and what \<^verbatim>\<open>engine.request\<close> left in the dictionaries that the parameters
  held.
\<close>

definition search_basic ::
  "env \<Rightarrow> string \<Rightarrow> online_params \<Rightarrow> world
     \<Rightarrow> (exn + (result list option \<times> online_params \<times> shared_dicts)) \<times> world" where
  "search_basic ev query params w =
     (let w0 = w\<lparr>basic_searches := basic_searches w @ [query]\<rparr>
      in case engine_request ev query params of
           Inl e \<Rightarrow> (Inl e, w0)
         | Inr (params', shared) \<Rightarrow>
             (case subscript ''url'' (p_url params') of
                Inl e \<Rightarrow> (Inl e, w0)
              | Inr url \<Rightarrow>
                  if url = [] then (Inr (None, params', shared), w0)
                  else (case send_http_request ev params' w0 of
                          (Inl e, w1) \<Rightarrow> (Inl e, w1)
                        | (Inr response, w1) \<Rightarrow>
                            (case engine_response ev response params' of
                               Inl e \<Rightarrow> (Inl e, w1)
                             | Inr results \<Rightarrow> (Inr (Some results, params', shared), w1)))))"

subsection \<open>Sitelink enrichment\<close>

text \<open>\<^verbatim>\<open>_get_property(result, "url")\<close> is not \<^verbatim>\<open>None\<close>.\<close>

fun has_url :: "result \<Rightarrow> bool" where
  "has_url (Result (UrlStr _) _ _) = True"
| "has_url (Result _ _ _) = False"

text \<open>
  \<^verbatim>\<open>_get_sitelinks\<close>. The nested search works on a shallow copy of the parameters: the
  parameters of the caller keep their keys, among them the query and the category, and
  see what the nested \<^verbatim>\<open>engine.request\<close> wrote into the dictionaries they share with
  the copy. The function returns the sitelinks and the parameters of the caller as the
  nested search left them. \<^verbatim>\<open>len(sitelink_results)\<close> raises \<^verbatim>\<open>TypeError\<close> when the
  nested search returned \<^verbatim>\<open>None\<close>.
\<close>

definition get_sitelinks ::
  "env \<Rightarrow> online_params \<Rightarrow> string \<Rightarrow> world
     \<Rightarrow> (exn + (result list \<times> online_params)) \<times> world" where
  "get_sitelinks ev params search_term w =
     (case subscript ''query'' (p_query params) of
        Inl e \<Rightarrow> (Inl e, w)
      | Inr query \<Rightarrow>
          let sitelink_query = query @ '' '' @ search_term;
              sitelink_params = params\<lparr>p_query := Some sitelink_query,
                                       p_category := Some ''sitelinks''\<rparr>
          in (case search_basic ev sitelink_query sitelink_params w of
                (Inl e, w1) \<Rightarrow> (Inl e, w1)
              | (Inr (None, _, _), w1) \<Rightarrow> (Inl TypeError, w1)
              | (Inr (Some sitelink_results, _, shared), w1) \<Rightarrow>
                  let sitelink_results =
                        (if length sitelink_results > 0 then tl sitelink_results
                         else sitelink_results)
                  in (Inr (filter has_url sitelink_results, write_back shared params), w1)))"

text \<open>\<^verbatim>\<open>term in query\<close> on strings.\<close>

fun starts_with :: "string \<Rightarrow> string \<Rightarrow> bool" where
  "starts_with [] s = True"
| "starts_with (c # cs) [] = False"
| "starts_with (c # cs) (d # ds) = (c = d \<and> starts_with cs ds)"

fun contains :: "string \<Rightarrow> string \<Rightarrow> bool" where
  "contains [] t = (t = [])"
| "contains (c # cs) t = (starts_with t (c # cs) \<or> contains cs t)"

text \<open>
  \<^verbatim>\<open>any(term in params["query"] for term in site['website_search_terms'])\<close>: the
  query is read once for each term tried.
\<close>

fun any_term_in_query :: "online_params \<Rightarrow> string list \<Rightarrow> exn + bool" where
  "any_term_in_query params [] = Inr False"
| "any_term_in_query params (t # ts) =
     (case subscript ''query'' (p_query params) of
        Inl e \<Rightarrow> Inl e
      | Inr query \<Rightarrow> if contains query t then Inr True else any_term_in_query params ts)"

text \<open>
  \<^verbatim>\<open>_get_property(result, "url", "")\<close>; \<open>None\<close> is Python's \<^verbatim>\<open>None\<close>, on which
  \<^verbatim>\<open>re.match\<close> raises \<^verbatim>\<open>TypeError\<close>.
\<close>

fun url_or_empty :: "result \<Rightarrow> string option" where
  "url_or_empty (Result UrlMissing _ _) = Some []"
| "url_or_empty (Result UrlNone _ _) = None"
| "url_or_empty (Result (UrlStr u) _ _) = Some u"

text \<open>\<^verbatim>\<open>terms[0]\<close>.\<close>

definition first_term :: "string list \<Rightarrow> exn + string" where
  "first_term ts = (case ts of [] \<Rightarrow> Inl IndexError | t # _ \<Rightarrow> Inr t)"

text \<open>
  The inner loop of \<^verbatim>\<open>_add_forced_sitelinks\<close>: the results are scanned in order, the
  first one whose URL matches gets the sitelinks, and the scan stops there. It returns
  the results and the parameters, which the nested search may have written into.
  \<^verbatim>\<open>re.match\<close> compiles the expression before it looks at the string, on which it
  raises \<^verbatim>\<open>TypeError\<close> if it is \<^verbatim>\<open>None\<close>.
\<close>

fun scan_results ::
  "env \<Rightarrow> online_params \<Rightarrow> site \<Rightarrow> string \<Rightarrow> result list \<Rightarrow> world
     \<Rightarrow> (exn + (result list \<times> online_params)) \<times> world" where
  "scan_results ev params site expression [] w = (Inr ([], params), w)"
| "scan_results ev params site expression (result # rest) w =
     (case re_compile ev expression of
        Some e \<Rightarrow> (Inl e, w)
      | None \<Rightarrow>
          (case url_or_empty result of
             None \<Rightarrow> (Inl TypeError, w)
           | Some u \<Rightarrow>
               if re_match ev expression u
               then (case first_term (website_search_terms site) of
                       Inl e \<Rightarrow> (Inl e, w)
                     | Inr search_term \<Rightarrow>
                         (case get_sitelinks ev params search_term w of
                            (Inl e, w1) \<Rightarrow> (Inl e, w1)
                          | (Inr (sitelinks, params'), w1) \<Rightarrow>
                              (Inr (set_sitelinks (Some sitelinks) result # rest, params'), w1)))
               else (case scan_results ev params site expression rest w of
                       (Inl e, w1) \<Rightarrow> (Inl e, w1)
                     | (Inr (rest', params'), w1) \<Rightarrow> (Inr (result # rest', params'), w1))))"

text \<open>
  The outer loop of \<^verbatim>\<open>_add_forced_sitelinks\<close>, over the sites.
  \<^verbatim>\<open>for result in search_results\<close> raises \<^verbatim>\<open>TypeError\<close> when the results are
  \<^verbatim>\<open>None\<close>.
\<close>

fun sites_loop ::
  "env \<Rightarrow> online_params \<Rightarrow> site list \<Rightarrow> result list option \<Rightarrow> world
     \<Rightarrow> (exn + result list option) \<times> world" where
  "sites_loop ev params [] search_results w = (Inr search_results, w)"
| "sites_loop ev params (site # sites) search_results w =
     (case subscript ''category'' (p_category params) of
        Inl e \<Rightarrow> (Inl e, w)
      | Inr category \<Rightarrow>
          (case subscript ''force_sitelinks_categories'' (force_sitelinks_categories ev) of
             Inl e \<Rightarrow> (Inl e, w)
           | Inr categories \<Rightarrow>
               if category \<notin> set categories
               then sites_loop ev params sites search_results w
               else
                 (case any_term_in_query params (website_search_terms site) of
                    Inl e \<Rightarrow> (Inl e, w)
                  | Inr True \<Rightarrow> sites_loop ev params sites search_results w
                  | Inr False \<Rightarrow>
                      (case search_results of
                         None \<Rightarrow> (Inl TypeError, w)
                       | Some results \<Rightarrow>
                           (case scan_results ev params site
                                   (''('' @ website_url_expression site @ '')'') results w of
                              (Inl e, w1) \<Rightarrow> (Inl e, w1)
                            | (Inr (results', params'), w1) \<Rightarrow>
                                sites_loop ev params' sites (Some results') w1)))))"

definition add_forced_sitelinks ::
  "env \<Rightarrow> result list option \<Rightarrow> online_params \<Rightarrow> world
     \<Rightarrow> (exn + result list option) \<times> world" where
  "add_forced_sitelinks ev search_results params w =
     (case subscript ''force_sitelink_websites'' (force_sitelink_websites ev) of
        Inl e \<Rightarrow> (Inl e, w)
      | Inr sites \<Rightarrow> sites_loop ev params sites search_results w)"

subsection \<open>The search invocation\<close>

text \<open>
  Modelled from the spec: \<^verbatim>\<open>extend_container\<close> of the base class is not among the
  sources. It merges the produced results, or nothing if dispatch was skipped, into the
  result container.
\<close>

definition extend_container :: "result list option \<Rightarrow> world \<Rightarrow> world" where
  "extend_container search_results w =
     (case search_results of
        None \<Rightarrow> w
      | Some results \<Rightarrow> w\<lparr>container := container w @ [results]\<rparr>)"

text \<open>
  Modelled from the spec: \<^verbatim>\<open>handle_exception\<close> of the base class is not among the
  sources. It records one incident for the exception, together with the suspend flag.
\<close>

definition handle_exception :: "exn \<Rightarrow> bool \<Rightarrow> world \<Rightarrow> world" where
  "handle_exception e suspend w = w\<lparr>handled := handled w @ [(e, suspend)]\<rparr>"

text \<open>\<^verbatim>\<open>settings['search'].get(key, [])\<close>.\<close>

definition get_or_empty :: "'a list option \<Rightarrow> 'a list" where
  "get_or_empty v = (case v of None \<Rightarrow> [] | Some xs \<Rightarrow> xs)"

text \<open>The body of the \<^verbatim>\<open>try\<close> statement of \<^verbatim>\<open>search\<close>.\<close>

definition search_try ::
  "env \<Rightarrow> string \<Rightarrow> online_params \<Rightarrow> world \<Rightarrow> (exn + unit) \<times> world" where
  "search_try ev query params w =
     (case search_basic ev query params w of
        (Inl e, w1) \<Rightarrow> (Inl e, w1)
      | (Inr (search_results, params', shared), w1) \<Rightarrow>
          if length (get_or_empty (force_sitelinks_categories ev)) > 0
             \<and> length (get_or_empty (force_sitelink_websites ev)) > 0
          then (case add_forced_sitelinks ev search_results params' w1 of
                  (Inl e, w2) \<Rightarrow> (Inl e, w2)
                | (Inr search_results', w2) \<Rightarrow> (Inr (), extend_container search_results' w2))
          else (Inr (), extend_container search_results w1))"

text \<open>
  \<^verbatim>\<open>init_network_in_thread\<close>: three calls into \<^verbatim>\<open>searx.network\<close>, which set the
  timeout, the clock and the name of the network for the thread. The model keeps of them
  whether they raise.
\<close>

definition init_network_in_thread :: "env \<Rightarrow> exn option" where
  "init_network_in_thread ev = network_context ev"

text \<open>
  \<^verbatim>\<open>search\<close>: the set-up of the network, which is outside the \<^verbatim>\<open>try\<close> statement,
  and the \<^verbatim>\<open>try\<close> statement with its \<^verbatim>\<open>except\<close> clauses, in the order of the
  source. The first component of the result is the exception that leaves the
  invocation, if any. The handler of the TLS errors evaluates
  \<^verbatim>\<open>get_network(...).verify\<close> for its log message, after \<^verbatim>\<open>handle_exception\<close>; what
  this raises leaves the invocation. The other handlers log the exception, the clock and
  the timeout limit, which raises nothing. What derives from \<^verbatim>\<open>BaseException\<close> only
  is caught by no clause.
\<close>

definition search ::
  "env \<Rightarrow> string \<Rightarrow> online_params \<Rightarrow> world \<Rightarrow> exn option \<times> world" where
  "search ev query params w =
     (case init_network_in_thread ev of
        Some e \<Rightarrow> (Some e, w)
      | None \<Rightarrow>
          (case search_try ev query params w of
             (Inr _, w1) \<Rightarrow> (None, w1)
           | (Inl e, w1) \<Rightarrow>
               (case e of
                  SSLError \<Rightarrow>
                    (case network_verify ev of
                       Inl e' \<Rightarrow> (Some e', handle_exception e True w1)
                     | Inr verify \<Rightarrow> (None, handle_exception e True w1))
                | TimeoutException \<Rightarrow> (None, handle_exception e True w1)
                | AsyncioTimeoutError \<Rightarrow> (None, handle_exception e True w1)
                | HTTPError \<Rightarrow> (None, handle_exception e True w1)
                | StreamError \<Rightarrow> (None, handle_exception e True w1)
                | SearxEngineCaptchaException \<Rightarrow> (None, handle_exception e True w1)
                | SearxEngineTooManyRequestsException \<Rightarrow> (None, handle_exception e True w1)
                | SearxEngineAccessDeniedException \<Rightarrow> (None, handle_exception e True w1)
                | NonException name \<Rightarrow> (Some e, w1)
                | _ \<Rightarrow> (None, handle_exception e False w1))))"

text \<open>
  The incidents of \<open>errors\<close> in the second world are those of the first one and, after
  them, secondary ones only.
\<close>

definition secondary_added :: "world \<Rightarrow> world \<Rightarrow> bool" where
  "secondary_added w w' = (\<exists>added. errors w' = errors w @ added \<and> list_all i_secondary added)"

subsection \<open>The tracker remover\<close>

text \<open>
  The functions of \<^verbatim>\<open>urllib.parse\<close> that the plugin calls. The percent codec
  (\<^verbatim>\<open>unquote\<close>, \<^verbatim>\<open>quote_plus\<close>) and \<^verbatim>\<open>urlunparse\<close> are taken as given.
\<close>

record urllib =
  unquote :: "string \<Rightarrow> string"
  quote_plus :: "string \<Rightarrow> string"
  urlunparse :: "parse_result \<Rightarrow> string"

text \<open>\<^verbatim>\<open>s.split(c)\<close> for a separator of one character.\<close>

fun split_on :: "char \<Rightarrow> string \<Rightarrow> string list" where
  "split_on c [] = [[]]"
| "split_on c (x # xs) =
     (if x = c then [] # split_on c xs
      else (case split_on c xs of
              [] \<Rightarrow> [[x]]
            | y # ys \<Rightarrow> (x # y) # ys))"

text \<open>\<^verbatim>\<open>s.partition('=')\<close>: the text before the first \<open>=\<close>, and the text after it if there is one.\<close>

fun partition_eq :: "string \<Rightarrow> string \<times> string option" where
  "partition_eq [] = ([], None)"
| "partition_eq (x # xs) =
     (if x = CHR ''='' then ([], Some xs)
      else (case partition_eq xs of (n, v) \<Rightarrow> (x # n, v)))"

definition plus_to_space :: "string \<Rightarrow> string" where
  "plus_to_space s = map (\<lambda>c. if c = CHR ''+'' then CHR '' '' else c) s"

text \<open>
  \<^verbatim>\<open>parse_qsl(qs)\<close> with the default arguments, as the plugin calls it: the query is
  split at \<open>&\<close>, and a field is kept only if it has an \<open>=\<close> followed by a value that
  is not empty (\<^verbatim>\<open>keep_blank_values=False\<close>).
\<close>

fun parse_fields :: "urllib \<Rightarrow> string list \<Rightarrow> (string \<times> string) list" where
  "parse_fields lib [] = []"
| "parse_fields lib (name_value # rest) =
     (case partition_eq name_value of
        (name, None) \<Rightarrow> parse_fields lib rest
      | (name, Some v) \<Rightarrow>
          if v \<noteq> []
          then (unquote lib (plus_to_space name), unquote lib (plus_to_space v))
               # parse_fields lib rest
          else parse_fields lib rest)"

definition parse_qsl :: "urllib \<Rightarrow> string \<Rightarrow> (string \<times> string) list" where
  "parse_qsl lib qs = parse_fields lib (split_on CHR ''&'' qs)"

text \<open>\<^verbatim>\<open>'&'.join(l)\<close>.\<close>

fun join_amp :: "string list \<Rightarrow> string" where
  "join_amp [] = []"
| "join_amp [x] = x"
| "join_amp (x # y # ys) = x @ ''&'' @ join_amp (y # ys)"

text \<open>\<^verbatim>\<open>urlencode\<close> of a list of pairs of strings.\<close>

definition urlencode :: "urllib \<Rightarrow> (string \<times> string) list \<Rightarrow> string" where
  "urlencode lib query =
     join_amp (map (\<lambda>(k, v). quote_plus lib k @ ''='' @ quote_plus lib v) query)"

text \<open>
  The five patterns of \<^verbatim>\<open>regexes\<close>, each as the set of names that \<^verbatim>\<open>reg.match\<close>
  accepts: \<^verbatim>\<open>match\<close> anchors the pattern at the start of the name only, and \<open>$\<close>
  also matches before a final newline.
\<close>

definition utm_regex :: "string \<Rightarrow> bool" where
  "utm_regex name =
     (starts_with ''utm_'' name
      \<and> (case drop 4 name of [] \<Rightarrow> False | c # _ \<Rightarrow> c \<noteq> CHR ''&''))"

definition email_regex :: "string \<Rightarrow> bool" where
  "email_regex name = (starts_with ''wkey'' name \<or> starts_with ''wemail'' name)"

definition hubspot_regex :: "string \<Rightarrow> bool" where
  "hubspot_regex name =
     (starts_with ''_hsenc'' name \<or> starts_with ''_hsmi'' name
      \<or> starts_with ''hsCtaTracking'' name \<or> starts_with ''__hssc'' name
      \<or> starts_with ''__hstc'' name \<or> starts_with ''__hsfp'' name)"

definition reddit_regex :: "string \<Rightarrow> bool" where
  "reddit_regex name = starts_with ''tl'' name"

definition stray_amp_regex :: "string \<Rightarrow> bool" where
  "stray_amp_regex name = (name = ''&'' \<or> name = [CHR ''&'', CHR 0x0A])"

definition regexes :: "(string \<Rightarrow> bool) list" where
  "regexes = [utm_regex, email_regex, hubspot_regex, reddit_regex, stray_amp_regex]"

text \<open>Some pattern of \<^verbatim>\<open>regexes\<close> matches the name.\<close>

definition is_tracker :: "string \<Rightarrow> bool" where
  "is_tracker param_name = list_ex (\<lambda>reg. reg param_name) regexes"

text \<open>
  The loop of \<^verbatim>\<open>_clear_trackers\<close> over a copy of the parsed query.
  \<^verbatim>\<open>parsed_query.remove(name_value)\<close> removes the first pair equal to
  \<^verbatim>\<open>name_value\<close> from the working list; the parsed URL and the URL of the result are
  rewritten at once.
\<close>

fun clear_loop ::
  "urllib \<Rightarrow> (string \<times> string) list \<Rightarrow> (string \<times> string) list \<Rightarrow> parse_result \<Rightarrow> result
     \<Rightarrow> result" where
  "clear_loop lib [] parsed_query parsed_url result = result"
| "clear_loop lib (name_value # rest) parsed_query parsed_url result =
     (if is_tracker (fst name_value)
      then let parsed_query' = remove1 name_value parsed_query;
               parsed_url' = parsed_url\<lparr>pr_query := urlencode lib parsed_query'\<rparr>
           in clear_loop lib rest parsed_query' parsed_url'
                (set_url (UrlStr (urlunparse lib parsed_url'))
                   (set_parsed_url (Some parsed_url') result))
      else clear_loop lib rest parsed_query parsed_url result)"

definition clear_trackers :: "urllib \<Rightarrow> result \<Rightarrow> result" where
  "clear_trackers lib result =
     (case r_parsed_url result of
        None \<Rightarrow> result
      | Some parsed_url \<Rightarrow>
          let parsed_query = parse_qsl lib (pr_query parsed_url)
          in clear_loop lib parsed_query parsed_query parsed_url result)"

text \<open>
  \<^verbatim>\<open>SXNGPlugin.on_result\<close>: the sitelinks are cleared first, then the result itself. It
  returns the continuation signal and the result as the plugin left it.
\<close>

definition on_result :: "urllib \<Rightarrow> result \<Rightarrow> bool \<times> result" where
  "on_result lib result =
     (let result1 =
            (if length (get_or_empty (r_sitelinks result)) > 0
             then set_sitelinks (Some (map (clear_trackers lib) (get_or_empty (r_sitelinks result))))
                    result
             else result)
      in (True, clear_trackers lib result1))"


subsection \<open>Example inputs\<close>

text \<open>
  A shop engine whose transport answers every request after one redirect, a site to
  enrich, and some request parameters; the theorems below are evaluated on them.
\<close>

definition empty_world :: world where
  "empty_world =
     \<lparr> net_calls = [], errors = [], handled = [], container = [], basic_searches = [] \<rparr>"

definition redirected_response :: response where
  "redirected_response =
     Response 200 ''OK'' ''engine.example.org''
       [Response 301 ''Moved Permanently'' ''engine.example.org'' [] []] ''<html>''"

definition shop_site :: site where
  "shop_site =
     \<lparr> website_url_expression = ''.*store[.]example[.]com.*'',
       website_search_terms = [''size''] \<rparr>"

definition shop_results :: "result list" where
  "shop_results =
     [Result (UrlStr ''https://store.example.com/item/1'') None None,
      Result UrlNone None None,
      Result (UrlStr ''https://store.example.com/item/2'') None None]"

definition unchanged_dicts :: "online_params \<Rightarrow> shared_dicts" where
  "unchanged_dicts params =
     \<lparr> sd_headers = p_headers params, sd_data = p_data params,
       sd_json = p_json params, sd_cookies = p_cookies params \<rparr>"

definition shop_env :: env where
  "shop_env =
     \<lparr> engine_name = ''shop'',
       send_accept_language_header = True,
       engine_request =
         (\<lambda>query params.
            Inr (params\<lparr>p_url := Some (''https://engine.example.org/?q='' @ query)\<rparr>,
                 unchanged_dicts params)),
       engine_response = (\<lambda>response params. Inr shop_results),
       network_get = (\<lambda>calls url request_args. Inr redirected_response),
       network_post = (\<lambda>calls url request_args. Inr redirected_response),
       network_context = None,
       network_verify = Inr ''True'',
       re_compile = (\<lambda>expression. None),
       re_match = (\<lambda>expression u. contains u ''store.example.com''),
       gen_useragent = ''Mozilla/5.0'',
       base_get_params = (\<lambda>search_query category. Some (''shoes'', category)),
       force_sitelinks_categories = Some [''shopping''],
       force_sitelink_websites = Some [shop_site] \<rparr>"

definition get_request :: online_params where
  "get_request = default_request_params\<lparr>p_url := Some ''https://engine.example.org/?q=shoes''\<rparr>"

definition get_request_call :: net_call where
  "get_request_call =
     \<lparr> nc_verb = GET,
       nc_url = ''https://engine.example.org/?q=shoes'',
       nc_args =
         \<lparr> ra_headers = Some [], ra_cookies = Some [], ra_auth = Some None,
           ra_verify = None, ra_max_redirects = None, ra_allow_redirects = Some False,
           ra_raise_for_httperror = Some True,
           ra_data = None, ra_json = None, ra_content = None \<rparr> \<rparr>"

definition direct_response :: response where
  "direct_response = Response 200 ''OK'' ''engine.example.org'' [] ''<html>''"

definition twice_redirected_response :: response where
  "twice_redirected_response =
     Response 200 ''OK'' ''engine.example.org''
       [Response 301 ''Moved Permanently'' ''engine.example.org'' [] [],
        Response 302 ''Found'' ''engine.example.org'' [] []] ''<html>''"

definition direct_env :: env where
  "direct_env = shop_env\<lparr>network_get := (\<lambda>calls url request_args. Inr direct_response)\<rparr>"

definition twice_env :: env where
  "twice_env =
     shop_env\<lparr>network_get := (\<lambda>calls url request_args. Inr twice_redirected_response)\<rparr>"

definition strict_request :: online_params where
  "strict_request = get_request\<lparr>p_soft_max_redirects := Some (- 1)\<rparr>"

definition lenient_request :: online_params where
  "lenient_request = get_request\<lparr>p_soft_max_redirects := Some 1\<rparr>"

definition hard_limit_request :: online_params where
  "hard_limit_request =
     get_request\<lparr>p_max_redirects := Some 1, p_soft_max_redirects := None\<rparr>"

definition hard_limit_call :: net_call where
  "hard_limit_call =
     get_request_call\<lparr>nc_args := (nc_args get_request_call)\<lparr>ra_max_redirects := Some 1\<rparr>\<rparr>"

definition two_bodies_request :: online_params where
  "two_bodies_request =
     default_request_params
       \<lparr> p_method := Some ''POST'',
         p_url := Some ''https://engine.example.org/search'',
         p_data := Some [(''q'', ''shoes'')],
         p_json := Some [(''query'', ''shoes'')],
         p_content := Some ''q=shoes'' \<rparr>"

definition two_bodies_call :: net_call where
  "two_bodies_call =
     \<lparr> nc_verb = POST,
       nc_url = ''https://engine.example.org/search'',
       nc_args =
         \<lparr> ra_headers = Some [], ra_cookies = Some [], ra_auth = Some None,
           ra_verify = None, ra_max_redirects = None, ra_allow_redirects = Some False,
           ra_raise_for_httperror = Some True,
           ra_data = Some [(''q'', ''shoes'')],
           ra_json = Some [(''query'', ''shoes'')],
           ra_content = Some ''q=shoes'' \<rparr> \<rparr>"


definition no_headers_request :: online_params where
  "no_headers_request = get_request\<lparr>p_headers := None\<rparr>"

definition en_us_query :: search_query where
  "en_us_query = \<lparr> sq_locale = Some \<lparr> language = ''en'', territory = Some ''US'' \<rparr> \<rparr>"

definition de_query :: search_query where
  "de_query = \<lparr> sq_locale = Some \<lparr> language = ''de'', territory = None \<rparr> \<rparr>"

definition shop_params :: online_params where
  "shop_params =
     default_request_params\<lparr>p_query := Some ''shoes'', p_category := Some ''shopping''\<rparr>"

definition nested_params :: online_params where
  "nested_params =
     default_request_params\<lparr>p_query := Some ''shoes size'', p_category := Some ''sitelinks''\<rparr>"

definition nested_call :: net_call where
  "nested_call =
     \<lparr> nc_verb = GET,
       nc_url = ''https://engine.example.org/?q=shoes size'',
       nc_args =
         \<lparr> ra_headers = Some [], ra_cookies = Some [], ra_auth = Some None,
           ra_verify = None, ra_max_redirects = None, ra_allow_redirects = Some False,
           ra_raise_for_httperror = Some True,
           ra_data = None, ra_json = None, ra_content = None \<rparr> \<rparr>"

definition nested_world :: world where
  "nested_world =
     \<lparr> net_calls = [nested_call],
       errors = [redirect_incident shop_env redirected_response 0],
       handled = [], container = [], basic_searches = [''shoes size''] \<rparr>"

definition tls_env :: env where
  "tls_env = shop_env\<lparr>network_get := (\<lambda>calls url request_args. Inl SSLError)\<rparr>"

definition broken_parser_env :: env where
  "broken_parser_env =
     shop_env\<lparr>engine_response := (\<lambda>response params. Inl (OtherException ''ValueError''))\<rparr>"

definition unverified_tls_env :: env where
  "unverified_tls_env = tls_env\<lparr>network_verify := Inl (OtherException ''AttributeError'')\<rparr>"

definition interrupted_env :: env where
  "interrupted_env =
     shop_env\<lparr>network_get :=
                (\<lambda>calls url request_args. Inl (NonException ''KeyboardInterrupt''))\<rparr>"

definition failed_world :: world where
  "failed_world =
     \<lparr> net_calls = [get_request_call], errors = [], handled = [], container = [],
       basic_searches = [''shoes''] \<rparr>"

definition parsed_world :: world where
  "parsed_world =
     \<lparr> net_calls = [get_request_call],
       errors = [redirect_incident shop_env redirected_response 0],
       handled = [], container = [], basic_searches = [''shoes''] \<rparr>"

definition sitelinks_env :: env where
  "sitelinks_env = shop_env\<lparr>force_sitelinks_categories := Some [''shopping'', ''sitelinks'']\<rparr>"

definition sitelinks_params :: online_params where
  "sitelinks_params =
     default_request_params\<lparr>p_query := Some ''shoes'', p_category := Some ''sitelinks''\<rparr>"

definition empty_url_env :: env where
  "empty_url_env =
     shop_env\<lparr>engine_request := (\<lambda>query params. Inr (params, unchanged_dicts params))\<rparr>"

text \<open>
  A percent codec that leaves its argument alone, as \<^verbatim>\<open>unquote\<close> and
  \<^verbatim>\<open>quote_plus\<close> do on letters, digits and \<open>_\<close>, and the \<^verbatim>\<open>urlunparse\<close> of a URL
  with a scheme, a host, a path and a query.
\<close>

definition plain_lib :: urllib where
  "plain_lib =
     \<lparr> unquote = (\<lambda>s. s),
       quote_plus = (\<lambda>s. s),
       urlunparse = (\<lambda>u. pr_scheme u @ ''://'' @ pr_netloc u @ pr_path u
                          @ (if pr_query u = [] then [] else ''?'' @ pr_query u)) \<rparr>"

definition item_url :: parse_result where
  "item_url =
     \<lparr> pr_scheme = ''https'', pr_netloc = ''store.example.com'', pr_path = ''/item'',
       pr_params = [], pr_query = ''ref=&utm_source=news'', pr_fragment = [] \<rparr>"

definition tracked_result :: result where
  "tracked_result =
     Result (UrlStr ''https://store.example.com/item?ref=&utm_source=news'') (Some item_url) None"

definition ordered_url :: parse_result where
  "ordered_url =
     \<lparr> pr_scheme = ''https'', pr_netloc = ''store.example.com'', pr_path = ''/item'',
       pr_params = [], pr_query = ''b=2&utm_source=news&a=1&tlang=en&b=2'', pr_fragment = [] \<rparr>"

definition ordered_result :: result where
  "ordered_result =
     Result (UrlStr ''https://store.example.com/item?b=2&utm_source=news&a=1&tlang=en&b=2'')
       (Some ordered_url) None"

section \<open>Properties\<close>

subsection \<open>HTTP dispatch\<close>

lemma bind_exn_Inr_iff: "bind_exn m f = Inr y \<longleftrightarrow> (\<exists>x. m = Inr x \<and> f x = Inr y)"
  by (cases m) (simp_all add: bind_exn_def)

lemma subscript_Inr_iff: "subscript k v = Inr x \<longleftrightarrow> v = Some x"
  by (cases v) (simp_all add: subscript_def)

lemma prepare_request_Inr:
  assumes "prepare_request params = Inr (verb, url, request_args, soft)"
  shows "\<exists>headers cookies auth.
           p_headers params = Some headers \<and> p_cookies params = Some cookies
           \<and> p_auth params = Some auth \<and> p_url params = Some url
           \<and> soft = soft_limit params
           \<and> ((verb = GET \<and> p_method params = Some ''GET''
                \<and> request_args = common_args headers cookies auth params)
              \<or> (verb = POST
                  \<and> (\<exists>meth data json content.
                        p_method params = Some meth \<and> meth \<noteq> ''GET''
                        \<and> p_data params = Some data \<and> p_json params = Some json
                        \<and> p_content params = Some content
                        \<and> request_args =
                            with_bodies data json content
                              (common_args headers cookies auth params))))"
  using assms unfolding prepare_request_def bind_exn_Inr_iff subscript_Inr_iff
  by (auto split: if_splits simp: bind_exn_Inr_iff subscript_Inr_iff)

lemma send_http_request_dispatch:
  assumes "net_calls (snd (send_http_request ev params w)) = net_calls w @ [c]"
  shows "prepare_request params = Inr (nc_verb c, nc_url c, nc_args c, soft_limit params)"
proof (cases "prepare_request params")
  case (Inl e)
  with assms show ?thesis by (simp add: send_http_request_def)
next
  case (Inr r)
  obtain verb url request_args soft where r: "r = (verb, url, request_args, soft)"
    by (cases r) auto
  from prepare_request_Inr[OF Inr[unfolded r]] have s: "soft = soft_limit params" by blast
  have "net_calls (snd (send_http_request ev params w))
          = net_calls w @ [\<lparr>nc_verb = verb, nc_url = url, nc_args = request_args\<rparr>]"
    by (simp add: send_http_request_def Inr r Let_def split: sum.splits)
  with assms have "c = \<lparr>nc_verb = verb, nc_url = url, nc_args = request_args\<rparr>" by simp
  with Inr r s show ?thesis by simp
qed

lemma prepare_get_request:
  "prepare_request get_request = Inr (GET, nc_url get_request_call, nc_args get_request_call, 0)"
  by (simp add: prepare_request_def get_request_def default_request_params_def bind_exn_def
        subscript_def common_args_def soft_limit_def get_request_call_def)

lemma prepare_two_bodies_request:
  "prepare_request two_bodies_request
     = Inr (POST, nc_url two_bodies_call, nc_args two_bodies_call, 0)"
  by (simp add: prepare_request_def two_bodies_request_def default_request_params_def
        bind_exn_def subscript_def common_args_def with_bodies_def soft_limit_def
        two_bodies_call_def)

lemma send_get_request:
  "send_http_request shop_env get_request empty_world
     = (Inr redirected_response,
        empty_world\<lparr>net_calls := [get_request_call],
                    errors := [redirect_incident shop_env redirected_response 0]\<rparr>)"
  by (simp add: send_http_request_def prepare_get_request shop_env_def empty_world_def
        redirected_response_def get_request_call_def)

lemma send_two_bodies_request:
  "net_calls (snd (send_http_request shop_env two_bodies_request empty_world))
     = [two_bodies_call]"
  by (simp add: send_http_request_def prepare_two_bodies_request shop_env_def empty_world_def
        redirected_response_def two_bodies_call_def Let_def)

lemma soft_limit_eq:
  "soft_limit params =
     (case p_soft_max_redirects params of
        Some s \<Rightarrow> s
      | None \<Rightarrow> (case p_max_redirects params of Some m \<Rightarrow> m | None \<Rightarrow> 0))"
  by (simp add: soft_limit_def split: option.splits)

text \<open>
  Claim C4. The soft limit of a request is the value of the key \<^verbatim>\<open>soft_max_redirects\<close>
  of its parameters and, where the key is missing, the value of \<^verbatim>\<open>max_redirects\<close>, or
  0 if that is missing too. When the request is dispatched and the transport returns a
  response whose redirect history is longer than the soft limit, the dispatch returns
  this very response and records exactly one incident, for this engine and tagged as
  secondary; nothing else about the world changes but the log of the transport calls.
\<close>

theorem soft_redirect_incident:
  assumes "prepare_request params = Inr (verb, url, request_args, soft)"
      and "(if verb = GET then network_get ev else network_post ev) (net_calls w) url request_args
             = Inr response"
      and "soft_max_redirects =
             (case p_soft_max_redirects params of
                Some s \<Rightarrow> s
              | None \<Rightarrow> (case p_max_redirects params of Some m \<Rightarrow> m | None \<Rightarrow> 0))"
      and "int (length (history response)) > soft_max_redirects"
  shows "send_http_request ev params w
           = (Inr response,
              w\<lparr>net_calls := net_calls w @ [\<lparr>nc_verb = verb, nc_url = url, nc_args = request_args\<rparr>],
                errors := errors w @ [redirect_incident ev response soft_max_redirects]\<rparr>)
         \<and> i_secondary (redirect_incident ev response soft_max_redirects)
         \<and> i_engine (redirect_incident ev response soft_max_redirects) = engine_name ev"
proof -
  from prepare_request_Inr[OF assms(1)] have s: "soft = soft_limit params" by blast
  from assms(3) have t: "soft_limit params = soft_max_redirects"
    by (simp add: soft_limit_eq)
  show ?thesis using assms(2,4)
    by (simp add: send_http_request_def assms(1) s t Let_def redirect_incident_def)
qed

lemma prepare_get_request_variant:
  assumes "p_headers params = p_headers get_request" "p_cookies params = p_cookies get_request"
      and "p_auth params = p_auth get_request" "p_method params = p_method get_request"
      and "p_url params = p_url get_request" "p_verify params = p_verify get_request"
      and "p_allow_redirects params = p_allow_redirects get_request"
      and "p_raise_for_httperror params = p_raise_for_httperror get_request"
  shows "prepare_request params
           = Inr (GET, nc_url get_request_call,
                  (nc_args get_request_call)
                    \<lparr>ra_max_redirects :=
                       (case p_max_redirects params of
                          None \<Rightarrow> None
                        | Some m \<Rightarrow> if m \<noteq> 0 then Some m else None)\<rparr>,
                  soft_limit params)"
  using assms
  by (simp add: prepare_request_def get_request_def default_request_params_def bind_exn_def
        subscript_def common_args_def get_request_call_def)

theorem soft_redirect_incident_witness:
  "send_http_request direct_env strict_request empty_world
     = (Inr direct_response,
        empty_world\<lparr>net_calls := [get_request_call],
                    errors := [redirect_incident direct_env direct_response (- 1)]\<rparr>)
   \<and> send_http_request twice_env lenient_request empty_world
     = (Inr twice_redirected_response,
        empty_world\<lparr>net_calls := [get_request_call],
                    errors := [redirect_incident twice_env twice_redirected_response 1]\<rparr>)
   \<and> send_http_request twice_env hard_limit_request empty_world
     = (Inr twice_redirected_response,
        empty_world\<lparr>net_calls := [hard_limit_call],
                    errors := [redirect_incident twice_env twice_redirected_response 1]\<rparr>)
   \<and> i_secondary (redirect_incident direct_env direct_response (- 1))
   \<and> i_message (redirect_incident twice_env twice_redirected_response 1)
       = ''2 redirects, maximum: 1''"
proof -
  have e: "net_calls empty_world = []" "errors empty_world = []"
    by (simp_all add: empty_world_def)
  have p1: "prepare_request strict_request
              = Inr (GET, nc_url get_request_call, nc_args get_request_call,
                     soft_limit strict_request)"
    using prepare_get_request_variant[of strict_request]
    by (simp add: strict_request_def get_request_def default_request_params_def
          get_request_call_def)
  have p2: "prepare_request lenient_request
              = Inr (GET, nc_url get_request_call, nc_args get_request_call,
                     soft_limit lenient_request)"
    using prepare_get_request_variant[of lenient_request]
    by (simp add: lenient_request_def get_request_def default_request_params_def
          get_request_call_def)
  have p3: "prepare_request hard_limit_request
              = Inr (GET, nc_url hard_limit_call, nc_args hard_limit_call,
                     soft_limit hard_limit_request)"
    using prepare_get_request_variant[of hard_limit_request]
    by (simp add: hard_limit_request_def get_request_def default_request_params_def
          hard_limit_call_def get_request_call_def)
  have n1: "(if GET = GET then network_get direct_env else network_post direct_env)
              (net_calls empty_world) (nc_url get_request_call) (nc_args get_request_call)
              = Inr direct_response"
    by (simp add: direct_env_def)
  have n2: "(if GET = GET then network_get twice_env else network_post twice_env)
              (net_calls empty_world) (nc_url get_request_call) (nc_args get_request_call)
              = Inr twice_redirected_response"
    by (simp add: twice_env_def)
  have n3: "(if GET = GET then network_get twice_env else network_post twice_env)
              (net_calls empty_world) (nc_url hard_limit_call) (nc_args hard_limit_call)
              = Inr twice_redirected_response"
    by (simp add: twice_env_def)
  have s1: "(- 1 :: int) =
              (case p_soft_max_redirects strict_request of
                 Some s \<Rightarrow> s
               | None \<Rightarrow> (case p_max_redirects strict_request of Some m \<Rightarrow> m | None \<Rightarrow> 0))"
    by (simp add: strict_request_def)
  have s2: "(1 :: int) =
              (case p_soft_max_redirects lenient_request of
                 Some s \<Rightarrow> s
               | None \<Rightarrow> (case p_max_redirects lenient_request of Some m \<Rightarrow> m | None \<Rightarrow> 0))"
    by (simp add: lenient_request_def)
  have s3: "(1 :: int) =
              (case p_soft_max_redirects hard_limit_request of
                 Some s \<Rightarrow> s
               | None \<Rightarrow> (case p_max_redirects hard_limit_request of Some m \<Rightarrow> m | None \<Rightarrow> 0))"
    by (simp add: hard_limit_request_def)
  have h1: "int (length (history direct_response)) > - 1"
    by (simp add: direct_response_def)
  have h2: "int (length (history twice_redirected_response)) > 1"
    by (simp add: twice_redirected_response_def)
  have c: "get_request_call
             = \<lparr>nc_verb = GET, nc_url = nc_url get_request_call,
                nc_args = nc_args get_request_call\<rparr>"
          "hard_limit_call
             = \<lparr>nc_verb = GET, nc_url = nc_url hard_limit_call,
                nc_args = nc_args hard_limit_call\<rparr>"
    by (simp_all add: get_request_call_def hard_limit_call_def)
  have m: "i_message (redirect_incident twice_env twice_redirected_response 1)
             = ''2 redirects, maximum: 1''"
    by (simp add: redirect_incident_def twice_redirected_response_def str_int_def
          str_nat.simps)
  from soft_redirect_incident[OF p1 n1 s1 h1] soft_redirect_incident[OF p2 n2 s2 h2]
       soft_redirect_incident[OF p3 n3 s3 h2] e c m
  show ?thesis by simp
qed

text \<open>
  Claim C2 says that of several bodies that are not empty only the first one, in the
  order form data, JSON, raw bytes, is attached to a POST request. The source tests the
  three bodies one after the other, with no \<^verbatim>\<open>elif\<close>: a request with all three
  bodies set is dispatched with all three.
\<close>

theorem post_body_precedence_counterexample:
  "p_method two_bodies_request = Some ''POST''
   \<and> p_data two_bodies_request = Some [(''q'', ''shoes'')]
   \<and> net_calls (snd (send_http_request shop_env two_bodies_request empty_world))
       = [two_bodies_call]
   \<and> ra_data (nc_args two_bodies_call) = Some [(''q'', ''shoes'')]
   \<and> ra_json (nc_args two_bodies_call) = Some [(''query'', ''shoes'')]
   \<and> ra_content (nc_args two_bodies_call) = Some ''q=shoes''"
  by (simp add: send_two_bodies_request)
     (simp add: two_bodies_request_def default_request_params_def two_bodies_call_def)

text \<open>
  Claim C2, as amended. For every dispatch: a request whose method is \<^verbatim>\<open>GET\<close> is sent
  with \<^verbatim>\<open>get\<close> and carries no body; a request with any other method is sent with
  \<^verbatim>\<open>post\<close> and carries each of the bodies form data, JSON and raw bytes exactly when
  that body is not empty, whatever the other two are.
\<close>

theorem post_bodies_attached:
  assumes "net_calls (snd (send_http_request ev params w)) = net_calls w @ [c]"
  shows "(p_method params = Some ''GET'' \<and> nc_verb c = GET
          \<and> ra_data (nc_args c) = None \<and> ra_json (nc_args c) = None
          \<and> ra_content (nc_args c) = None)
       \<or> ((\<exists>meth. p_method params = Some meth \<and> meth \<noteq> ''GET'') \<and> nc_verb c = POST
           \<and> (\<exists>data json content.
                 p_data params = Some data \<and> p_json params = Some json
                 \<and> p_content params = Some content
                 \<and> ra_data (nc_args c) = (if data = [] then None else Some data)
                 \<and> ra_json (nc_args c) = (if json = [] then None else Some json)
                 \<and> ra_content (nc_args c) = (if content = [] then None else Some content)))"
proof -
  from prepare_request_Inr[OF send_http_request_dispatch[OF assms]]
  obtain headers cookies auth where
    c: "(nc_verb c = GET \<and> p_method params = Some ''GET''
          \<and> nc_args c = common_args headers cookies auth params)
        \<or> (nc_verb c = POST
            \<and> (\<exists>meth data json content.
                  p_method params = Some meth \<and> meth \<noteq> ''GET''
                  \<and> p_data params = Some data \<and> p_json params = Some json
                  \<and> p_content params = Some content
                  \<and> nc_args c = with_bodies data json content
                                  (common_args headers cookies auth params)))"
    by blast
  then show ?thesis
  proof
    assume "nc_verb c = GET \<and> p_method params = Some ''GET''
              \<and> nc_args c = common_args headers cookies auth params"
    then show ?thesis by (simp add: common_args_def)
  next
    assume "nc_verb c = POST
              \<and> (\<exists>meth data json content.
                    p_method params = Some meth \<and> meth \<noteq> ''GET''
                    \<and> p_data params = Some data \<and> p_json params = Some json
                    \<and> p_content params = Some content
                    \<and> nc_args c = with_bodies data json content
                                    (common_args headers cookies auth params))"
    then obtain meth data json content where
      "nc_verb c = POST" "p_method params = Some meth" "meth \<noteq> ''GET''"
      "p_data params = Some data" "p_json params = Some json"
      "p_content params = Some content"
      "nc_args c = with_bodies data json content (common_args headers cookies auth params)"
      by blast
    then show ?thesis by (simp add: with_bodies_def)
  qed
qed

theorem post_bodies_attached_witness:
  "p_method two_bodies_request = Some ''POST''
   \<and> nc_verb two_bodies_call = POST
   \<and> p_data two_bodies_request = Some [(''q'', ''shoes'')]
   \<and> p_json two_bodies_request = Some [(''query'', ''shoes'')]
   \<and> p_content two_bodies_request = Some ''q=shoes''
   \<and> ra_data (nc_args two_bodies_call) = Some [(''q'', ''shoes'')]
   \<and> ra_json (nc_args two_bodies_call) = Some [(''query'', ''shoes'')]
   \<and> ra_content (nc_args two_bodies_call) = Some ''q=shoes''"
proof -
  have h: "net_calls (snd (send_http_request shop_env two_bodies_request empty_world))
             = net_calls empty_world @ [two_bodies_call]"
  proof -
    have "net_calls empty_world = []" by (simp add: empty_world_def)
    with send_two_bodies_request show ?thesis by simp
  qed
  have v: "nc_verb two_bodies_call = POST" by (simp add: two_bodies_call_def)
  have p: "p_method two_bodies_request = Some ''POST''"
          "p_data two_bodies_request = Some [(''q'', ''shoes'')]"
          "p_json two_bodies_request = Some [(''query'', ''shoes'')]"
          "p_content two_bodies_request = Some ''q=shoes''"
    by (simp_all add: two_bodies_request_def default_request_params_def)
  from post_bodies_attached[OF h] v p show ?thesis by simp
qed

text \<open>
  Claim C8 says that each of headers, cookies, auth, verify, allow_redirects and
  max_redirects is passed only when present and is left out otherwise. On the default
  parameters \<^verbatim>\<open>auth\<close> is \<^verbatim>\<open>None\<close> and is passed as such, and \<^verbatim>\<open>max_redirects\<close> is
  present with the value 0 and is not passed; when the key \<^verbatim>\<open>headers\<close> is missing
  nothing is dispatched: \<^verbatim>\<open>KeyError\<close> is raised.
\<close>

theorem request_options_counterexample:
  "p_auth get_request = Some None
   \<and> p_max_redirects get_request = Some 0
   \<and> net_calls (snd (send_http_request shop_env get_request empty_world)) = [get_request_call]
   \<and> ra_auth (nc_args get_request_call) = Some None
   \<and> ra_max_redirects (nc_args get_request_call) = None
   \<and> p_headers no_headers_request = None
   \<and> send_http_request shop_env no_headers_request empty_world
       = (Inl (KeyError ''headers''), empty_world)"
  by (simp add: send_get_request)
     (simp add: get_request_def default_request_params_def get_request_call_def
        no_headers_request_def send_http_request_def prepare_request_def bind_exn_def
        subscript_def)

text \<open>
  Claim C8, as amended. For every dispatch: \<^verbatim>\<open>headers\<close>, \<^verbatim>\<open>cookies\<close> and \<^verbatim>\<open>auth\<close>
  are keys of the parameters and are passed with the values they hold (for \<^verbatim>\<open>auth\<close>
  also when it holds \<^verbatim>\<open>None\<close>); \<^verbatim>\<open>verify\<close> is passed exactly when it is present and
  not \<^verbatim>\<open>None\<close>; \<^verbatim>\<open>max_redirects\<close> exactly when it is present and not 0;
  \<^verbatim>\<open>allow_redirects\<close> exactly when its key is present. An option that is not passed is
  left out of the call.
\<close>

theorem request_options_passed:
  assumes "net_calls (snd (send_http_request ev params w)) = net_calls w @ [c]"
  shows "(\<exists>headers. p_headers params = Some headers \<and> ra_headers (nc_args c) = Some headers)
       \<and> (\<exists>cookies. p_cookies params = Some cookies \<and> ra_cookies (nc_args c) = Some cookies)
       \<and> (\<exists>auth. p_auth params = Some auth \<and> ra_auth (nc_args c) = Some auth)
       \<and> ra_verify (nc_args c) = (case p_verify params of None \<Rightarrow> None | Some v \<Rightarrow> v)
       \<and> ra_max_redirects (nc_args c)
           = (case p_max_redirects params of
                None \<Rightarrow> None
              | Some m \<Rightarrow> if m = 0 then None else Some m)
       \<and> ra_allow_redirects (nc_args c) = p_allow_redirects params"
proof -
  from prepare_request_Inr[OF send_http_request_dispatch[OF assms]]
  obtain headers cookies auth where
    p: "p_headers params = Some headers" "p_cookies params = Some cookies"
       "p_auth params = Some auth"
    and c: "nc_args c = common_args headers cookies auth params
            \<or> (\<exists>data json content.
                  nc_args c = with_bodies data json content
                                (common_args headers cookies auth params))"
    by blast
  from c have "ra_headers (nc_args c) = Some headers \<and> ra_cookies (nc_args c) = Some cookies
     \<and> ra_auth (nc_args c) = Some auth
     \<and> ra_verify (nc_args c) = (case p_verify params of None \<Rightarrow> None | Some v \<Rightarrow> v)
     \<and> ra_max_redirects (nc_args c)
           = (case p_max_redirects params of
                None \<Rightarrow> None
              | Some m \<Rightarrow> if m = 0 then None else Some m)
     \<and> ra_allow_redirects (nc_args c) = p_allow_redirects params"
    by (auto simp: common_args_def with_bodies_def split: option.splits)
  with p show ?thesis by simp
qed

theorem request_options_passed_witness:
  "ra_headers (nc_args get_request_call) = Some []
   \<and> ra_cookies (nc_args get_request_call) = Some []
   \<and> ra_auth (nc_args get_request_call) = Some None
   \<and> ra_verify (nc_args get_request_call) = None
   \<and> ra_max_redirects (nc_args get_request_call) = None
   \<and> ra_allow_redirects (nc_args get_request_call) = Some False"
proof -
  have h: "net_calls (snd (send_http_request shop_env get_request empty_world))
             = net_calls empty_world @ [get_request_call]"
  proof -
    have "net_calls empty_world = []" by (simp add: empty_world_def)
    then show ?thesis by (simp add: send_get_request)
  qed
  from request_options_passed[OF h] show ?thesis
    by (simp add: get_request_def default_request_params_def)
qed

subsection \<open>The request parameter builder\<close>

text \<open>
  Claim C7. When the base class supplies parameters, the engine opts into the header and
  the query has a locale, \<^verbatim>\<open>get_params\<close> returns parameters whose header
  \<^verbatim>\<open>Accept-Language\<close> is \<open>lang-territory,lang;q=0.9,*;q=0.5\<close> if the locale has a
  territory, and the plain language tag if it has none.
\<close>

theorem accept_language_header:
  assumes "base_get_params ev search_query engine_category = Some base"
      and "send_accept_language_header ev"
      and "sq_locale search_query = Some loc"
  shows "\<exists>params headers.
           get_params ev search_query engine_category = Inr (Some params)
           \<and> p_headers params = Some headers
           \<and> (\<forall>terr. territory loc = Some terr \<and> terr \<noteq> [] \<longrightarrow>
                  dict_get headers ''Accept-Language''
                    = Some (language loc @ ''-'' @ terr @ '','' @ language loc
                            @ '';q=0.9,*;q=0.5''))
           \<and> (territory loc = None \<longrightarrow>
                  dict_get headers ''Accept-Language'' = Some (language loc))"
proof -
  obtain query category where b: "base = (query, category)" by (cases base) auto
  show ?thesis
    using assms
    by (cases "territory loc")
       (simp_all add: get_params_def b default_request_params_def bind_exn_def subscript_def
          dict_get_def)
qed

theorem accept_language_header_witness:
  "(\<exists>params headers.
      get_params shop_env en_us_query ''shopping'' = Inr (Some params)
      \<and> p_headers params = Some headers
      \<and> dict_get headers ''Accept-Language'' = Some ''en-US,en;q=0.9,*;q=0.5'')
   \<and> (\<exists>params headers.
      get_params shop_env de_query ''shopping'' = Inr (Some params)
      \<and> p_headers params = Some headers
      \<and> dict_get headers ''Accept-Language'' = Some ''de'')"
proof -
  have b: "base_get_params shop_env en_us_query ''shopping'' = Some (''shoes'', ''shopping'')"
          "base_get_params shop_env de_query ''shopping'' = Some (''shoes'', ''shopping'')"
    by (simp_all add: shop_env_def)
  have s: "send_accept_language_header shop_env" by (simp add: shop_env_def)
  have l: "sq_locale en_us_query = Some \<lparr> language = ''en'', territory = Some ''US'' \<rparr>"
          "sq_locale de_query = Some \<lparr> language = ''de'', territory = None \<rparr>"
    by (simp_all add: en_us_query_def de_query_def)
  from accept_language_header[OF b(1) s l(1)] accept_language_header[OF b(2) s l(2)]
  show ?thesis by simp
qed

subsection \<open>Sitelink enrichment\<close>

lemma search_basic_nested:
  "search_basic shop_env ''shoes size''
     (shop_params\<lparr>p_query := Some ''shoes size'', p_category := Some ''sitelinks''\<rparr>) empty_world
   = (Inr (Some shop_results,
           nested_params\<lparr>p_url := Some ''https://engine.example.org/?q=shoes size''\<rparr>,
           unchanged_dicts shop_params),
      nested_world)"
  by (simp add: search_basic_def shop_env_def shop_params_def nested_params_def
        default_request_params_def subscript_def send_http_request_def prepare_request_def
        bind_exn_def common_args_def soft_limit_def empty_world_def nested_world_def
        nested_call_def redirected_response_def redirect_incident_def unchanged_dicts_def
        Let_def)

lemma write_back_unchanged: "write_back (unchanged_dicts params) params = params"
  by (simp add: write_back_def unchanged_dicts_def shared_value_def split: option.splits)

text \<open>
  Claim C6. When the nested search of \<^verbatim>\<open>_get_sitelinks\<close> returns a sequence of results,
  the sitelinks are that sequence without its first element and then without every
  element that has no URL; an empty sequence gives an empty list and nothing is raised.
  On the example inputs, the sequence of a result with a URL, a result whose URL is
  \<^verbatim>\<open>None\<close> and a second result with a URL gives the last one alone.
\<close>

theorem sitelinks_post_processing:
  assumes "p_query params = Some query"
      and "search_basic ev (query @ '' '' @ search_term)
             (params\<lparr>p_query := Some (query @ '' '' @ search_term),
                     p_category := Some ''sitelinks''\<rparr>) w
           = (Inr (Some nested, params', shared), w')"
  shows "get_sitelinks ev params search_term w
           = (Inr (filter has_url (drop 1 nested), write_back shared params), w')
         \<and> (nested = [] \<longrightarrow>
               get_sitelinks ev params search_term w = (Inr ([], write_back shared params), w'))"
  using assms
  by (cases nested) (simp_all add: get_sitelinks_def subscript_def Let_def drop_Suc)

theorem sitelinks_post_processing_witness:
  "get_sitelinks shop_env shop_params ''size'' empty_world
     = (Inr ([Result (UrlStr ''https://store.example.com/item/2'') None None], shop_params),
        nested_world)"
proof -
  have q: "p_query shop_params = Some ''shoes''"
    by (simp add: shop_params_def)
  have n: "search_basic shop_env (''shoes'' @ '' '' @ ''size'')
             (shop_params\<lparr>p_query := Some (''shoes'' @ '' '' @ ''size''),
                          p_category := Some ''sitelinks''\<rparr>) empty_world
           = (Inr (Some shop_results,
                   nested_params\<lparr>p_url := Some ''https://engine.example.org/?q=shoes size''\<rparr>,
                   unchanged_dicts shop_params),
              nested_world)"
    using search_basic_nested by simp
  from sitelinks_post_processing[OF q n] show ?thesis
    by (simp add: shop_results_def write_back_unchanged)
qed

subsection \<open>What a search leaves unchanged\<close>

text \<open>
  No function called in the body of the \<^verbatim>\<open>try\<close> statement handles an exception, and
  each one starts a bounded number of basic searches and transport calls.
\<close>

lemma secondary_added_refl: "secondary_added w w"
  by (simp add: secondary_added_def)

lemma secondary_added_trans:
  assumes "secondary_added w w1" and "secondary_added w1 w2"
  shows "secondary_added w w2"
proof -
  from assms obtain a b where
    "errors w1 = errors w @ a" "list_all i_secondary a"
    "errors w2 = errors w1 @ b" "list_all i_secondary b"
    by (auto simp: secondary_added_def)
  then have "errors w2 = errors w @ (a @ b) \<and> list_all i_secondary (a @ b)" by simp
  then show ?thesis unfolding secondary_added_def by blast
qed

lemma send_http_request_frame:
  assumes "send_http_request ev params w = (r, w')"
  shows "handled w' = handled w" and "basic_searches w' = basic_searches w"
    and "container w' = container w"
    and "length (net_calls w') \<le> Suc (length (net_calls w))"
    and "secondary_added w w'"
  using assms
  by (auto simp: send_http_request_def Let_def secondary_added_def redirect_incident_def
           split: sum.splits prod.splits if_splits)

lemma search_basic_frame:
  assumes "search_basic ev query params w = (r, w')"
  shows "handled w' = handled w" and "basic_searches w' = basic_searches w @ [query]"
    and "container w' = container w"
    and "length (net_calls w') \<le> Suc (length (net_calls w))"
    and "secondary_added w w'"
proof -
  let ?w0 = "w\<lparr>basic_searches := basic_searches w @ [query]\<rparr>"
  have alt: "w' = ?w0 \<or> (\<exists>params' r1. send_http_request ev params' ?w0 = (r1, w'))"
    using assms
    by (auto simp: search_basic_def Let_def split: sum.splits prod.splits if_splits)
  have "handled w' = handled w \<and> basic_searches w' = basic_searches w @ [query]
        \<and> container w' = container w
        \<and> length (net_calls w') \<le> Suc (length (net_calls w))
        \<and> secondary_added w w'"
    using alt
  proof (elim disjE exE)
    assume "w' = ?w0"
    then show ?thesis by (simp add: secondary_added_def)
  next
    fix params' r1
    assume s: "send_http_request ev params' ?w0 = (r1, w')"
    from send_http_request_frame[OF s] show ?thesis by (simp add: secondary_added_def)
  qed
  then show "handled w' = handled w" and "basic_searches w' = basic_searches w @ [query]"
    and "container w' = container w"
    and "length (net_calls w') \<le> Suc (length (net_calls w))"
    and "secondary_added w w'"
    by simp_all
qed

lemma get_sitelinks_frame:
  assumes "get_sitelinks ev params search_term w = (r, w')"
  shows "handled w' = handled w"
    and "length (basic_searches w') \<le> Suc (length (basic_searches w))"
    and "container w' = container w"
    and "length (net_calls w') \<le> Suc (length (net_calls w))"
    and "secondary_added w w'"
proof -
  have alt: "w' = w \<or> (\<exists>query params' r1. search_basic ev query params' w = (r1, w'))"
    using assms
    by (auto simp: get_sitelinks_def Let_def split: sum.splits prod.splits option.splits)
  have "handled w' = handled w
        \<and> length (basic_searches w') \<le> Suc (length (basic_searches w))
        \<and> container w' = container w
        \<and> length (net_calls w') \<le> Suc (length (net_calls w))
        \<and> secondary_added w w'"
    using alt
  proof (elim disjE exE)
    assume "w' = w"
    then show ?thesis by (simp add: secondary_added_refl)
  next
    fix query params' r1
    assume s: "search_basic ev query params' w = (r1, w')"
    from search_basic_frame[OF s] show ?thesis by simp
  qed
  then show "handled w' = handled w"
    and "length (basic_searches w') \<le> Suc (length (basic_searches w))"
    and "container w' = container w"
    and "length (net_calls w') \<le> Suc (length (net_calls w))"
    and "secondary_added w w'"
    by simp_all
qed

lemma scan_results_frame:
  assumes "scan_results ev params site expression results w = (r, w')"
  shows "handled w' = handled w
         \<and> length (basic_searches w') \<le> Suc (length (basic_searches w))
         \<and> container w' = container w
         \<and> length (net_calls w') \<le> Suc (length (net_calls w))
         \<and> secondary_added w w'"
  using assms
proof (induction results arbitrary: r w')
  case Nil
  then show ?case by (simp add: secondary_added_refl)
next
  case (Cons result rest)
  have "w' = w
        \<or> (\<exists>search_term r1. get_sitelinks ev params search_term w = (r1, w'))
        \<or> (\<exists>r1. scan_results ev params site expression rest w = (r1, w'))"
    using Cons.prems
    by (auto split: sum.splits prod.splits option.splits if_splits)
  then show ?case
  proof (elim disjE exE)
    assume "w' = w"
    then show ?thesis by (simp add: secondary_added_refl)
  next
    fix search_term r1
    assume s: "get_sitelinks ev params search_term w = (r1, w')"
    from get_sitelinks_frame[OF s] show ?thesis by simp
  next
    fix r1
    assume s: "scan_results ev params site expression rest w = (r1, w')"
    from Cons.IH[OF s] show ?thesis .
  qed
qed

lemma sites_loop_frame:
  assumes "sites_loop ev params sites search_results w = (r, w')"
  shows "handled w' = handled w
         \<and> length (basic_searches w') \<le> length (basic_searches w) + length sites
         \<and> container w' = container w
         \<and> length (net_calls w') \<le> length (net_calls w) + length sites
         \<and> secondary_added w w'"
  using assms
proof (induction sites arbitrary: params search_results w)
  case Nil
  then show ?case by (simp add: secondary_added_refl)
next
  case (Cons site sites)
  have "w' = w
        \<or> sites_loop ev params sites search_results w = (r, w')
        \<or> (\<exists>expression results r1. scan_results ev params site expression results w = (r1, w'))
        \<or> (\<exists>expression results r1 w1 params' results'.
              scan_results ev params site expression results w = (r1, w1)
              \<and> sites_loop ev params' sites (Some results') w1 = (r, w'))"
    using Cons.prems
    by (auto split: sum.splits prod.splits option.splits bool.splits if_splits)
  then consider
      (stop) "w' = w"
    | (skip) "sites_loop ev params sites search_results w = (r, w')"
    | (fail) expression results r1 where
        "scan_results ev params site expression results w = (r1, w')"
    | (scan) expression results r1 w1 params' results' where
        "scan_results ev params site expression results w = (r1, w1)"
        "sites_loop ev params' sites (Some results') w1 = (r, w')"
    by blast
  then show ?case
  proof cases
    case stop
    then show ?thesis by (simp add: secondary_added_refl)
  next
    case skip
    from Cons.IH[OF skip] show ?thesis by simp
  next
    case fail
    from scan_results_frame[OF fail] show ?thesis by simp
  next
    case scan
    from scan_results_frame[OF scan(1)] Cons.IH[OF scan(2)] show ?thesis
      by (auto intro: secondary_added_trans)
  qed
qed

lemma add_forced_sitelinks_frame:
  assumes "add_forced_sitelinks ev search_results params w = (r, w')"
  shows "handled w' = handled w
         \<and> length (basic_searches w')
             \<le> length (basic_searches w) + length (get_or_empty (force_sitelink_websites ev))
         \<and> length (net_calls w')
             \<le> length (net_calls w) + length (get_or_empty (force_sitelink_websites ev))
         \<and> secondary_added w w'"
proof (cases "force_sitelink_websites ev")
  case None
  with assms show ?thesis
    by (simp add: add_forced_sitelinks_def subscript_def secondary_added_refl)
next
  case (Some sites)
  with assms have "sites_loop ev params sites search_results w = (r, w')"
    by (simp add: add_forced_sitelinks_def subscript_def)
  from sites_loop_frame[OF this] Some show ?thesis by (simp add: get_or_empty_def)
qed

lemma extend_container_frame:
  "handled (extend_container rs w) = handled w"
  "basic_searches (extend_container rs w) = basic_searches w"
  "net_calls (extend_container rs w) = net_calls w"
  "errors (extend_container rs w) = errors w"
  by (simp_all add: extend_container_def split: option.splits)

lemma search_try_frame:
  assumes "search_try ev query params w = (r, w')"
  shows "handled w' = handled w
         \<and> length (basic_searches w')
             \<le> Suc (length (basic_searches w))
                + length (get_or_empty (force_sitelink_websites ev))
         \<and> length (net_calls w')
             \<le> Suc (length (net_calls w))
                + length (get_or_empty (force_sitelink_websites ev))
         \<and> secondary_added w w'"
proof -
  obtain r0 w0 where b: "search_basic ev query params w = (r0, w0)"
    by (cases "search_basic ev query params w") auto
  note f = search_basic_frame[OF b]
  show ?thesis
  proof (cases r0)
    case (Inl e)
    with assms b f show ?thesis by (auto simp: search_try_def)
  next
    case (Inr x)
    obtain search_results params' shared where x: "x = (search_results, params', shared)"
      by (cases x) auto
    show ?thesis
    proof (cases "length (get_or_empty (force_sitelinks_categories ev)) > 0
                  \<and> length (get_or_empty (force_sitelink_websites ev)) > 0")
      case False
      with assms b Inr x have "w' = extend_container search_results w0"
        by (auto simp: search_try_def)
      with f show ?thesis
        by (auto simp: extend_container_frame secondary_added_def)
    next
      case True
      obtain r1 w1 where a: "add_forced_sitelinks ev search_results params' w0 = (r1, w1)"
        by (cases "add_forced_sitelinks ev search_results params' w0") auto
      note g = add_forced_sitelinks_frame[OF a]
      from f(5) g have t: "secondary_added w w1" by (auto intro: secondary_added_trans)
      from assms b Inr x True a
      have "w' = w1 \<or> (\<exists>rs. w' = extend_container rs w1)"
        by (auto simp: search_try_def split: sum.splits)
      with f g t show ?thesis
        by (auto simp: extend_container_frame secondary_added_def)
    qed
  qed
qed

subsection \<open>The search invocation\<close>

lemmas example_defs =
  shop_env_def shop_params_def default_request_params_def empty_world_def
  redirected_response_def shop_results_def shop_site_def get_request_call_def
  redirect_incident_def unchanged_dicts_def

lemmas pipeline_defs =
  search_def init_network_in_thread_def search_try_def search_basic_def
  send_http_request_def prepare_request_def
  add_forced_sitelinks_def get_sitelinks_def first_term_def write_back_def shared_value_def
  bind_exn_def subscript_def common_args_def soft_limit_def get_or_empty_def
  extend_container_def handle_exception_def Let_def

lemma search_try_tls:
  "search_try tls_env ''shoes'' shop_params empty_world = (Inl SSLError, failed_world)"
  by (simp add: tls_env_def failed_world_def example_defs pipeline_defs)

lemma search_try_broken_parser:
  "search_try broken_parser_env ''shoes'' shop_params empty_world
     = (Inl (OtherException ''ValueError''), parsed_world)"
  by (simp add: broken_parser_env_def parsed_world_def example_defs pipeline_defs)

text \<open>
  Claim C3 says that an invocation whose URL is left empty by the engine never calls the
  transport, yields no results and records no error. The code does so when the sitelink
  enrichment is not configured (lemma \<open>search_empty_url_without_enrichment\<close> below). When
  it is configured and a site passes the category and search term checks, the loop over
  the results iterates over \<^verbatim>\<open>None\<close>, the \<^verbatim>\<open>TypeError\<close> is caught by the last
  \<^verbatim>\<open>except\<close> clause and one incident is recorded: on the example inputs the transport
  is not called, nothing is merged, and \<open>handled\<close> holds the \<^verbatim>\<open>TypeError\<close>.
\<close>

theorem empty_url_enrichment_incident:
  "engine_request empty_url_env ''shoes'' shop_params
     = Inr (shop_params, unchanged_dicts shop_params)
   \<and> p_url shop_params = Some ''''
   \<and> search empty_url_env ''shoes'' shop_params empty_world
       = (None, empty_world\<lparr>handled := [(TypeError, False)], basic_searches := [''shoes'']\<rparr>)"
  by (simp add: empty_url_env_def example_defs pipeline_defs)

text \<open>
  Claim C1 says that a search whose category is \<open>sitelinks\<close> performs no nested search,
  whatever the configured categories are. The only test of the source is whether the
  category is among the configured ones (lemma \<open>sites_loop_category_skip\<close> below): when
  the setting \<^verbatim>\<open>force_sitelinks_categories\<close> lists \<open>sitelinks\<close>, a search in that
  category starts the nested search for the query \<open>shoes size\<close>.
\<close>

theorem sitelinks_category_nested_search:
  "p_category sitelinks_params = Some ''sitelinks''
   \<and> force_sitelinks_categories sitelinks_env = Some [''shopping'', ''sitelinks'']
   \<and> basic_searches (snd (search sitelinks_env ''shoes'' sitelinks_params empty_world))
       = [''shoes'', ''shoes size'']"
  by (simp add: sitelinks_env_def sitelinks_params_def example_defs pipeline_defs)

text \<open>
  Claim C5 says that an invocation that raises records exactly one incident and lets no
  exception out. Three inputs show otherwise. When the parser of the engine raises after
  a response with too many redirects, two incidents are recorded: the secondary one of
  the dispatch and the one of the handler. When the TLS handler fails to read the
  \<^verbatim>\<open>verify\<close> setting of the network for its log message, that exception leaves the
  invocation, after the incident has been recorded. And what derives from
  \<^verbatim>\<open>BaseException\<close> only is caught by no clause: it leaves the invocation and no
  incident is recorded.
\<close>

theorem search_exception_counterexample:
  "search broken_parser_env ''shoes'' shop_params empty_world
     = (None, parsed_world\<lparr>handled := [(OtherException ''ValueError'', False)]\<rparr>)
   \<and> errors parsed_world = [redirect_incident shop_env redirected_response 0]
   \<and> search unverified_tls_env ''shoes'' shop_params empty_world
     = (Some (OtherException ''AttributeError''), failed_world\<lparr>handled := [(SSLError, True)]\<rparr>)
   \<and> search interrupted_env ''shoes'' shop_params empty_world
     = (Some (NonException ''KeyboardInterrupt''), failed_world)"
  by (simp add: broken_parser_env_def unverified_tls_env_def tls_env_def interrupted_env_def
        parsed_world_def failed_world_def example_defs pipeline_defs)

text \<open>
  Claim C5, as amended. Take an invocation whose network set-up does not raise and whose
  \<^verbatim>\<open>try\<close> body raises an exception. The body has called \<^verbatim>\<open>handle_exception\<close> not at
  all, and the only incidents it has recorded with \<^verbatim>\<open>count_error\<close> are secondary ones.
  For a TLS error the handler records exactly one incident, with \<^verbatim>\<open>suspend=True\<close>,
  and no exception leaves the invocation unless reading the \<^verbatim>\<open>verify\<close> setting for the
  log message raises one. For an exception that derives from \<^verbatim>\<open>Exception\<close> and is of
  none of the classes that the first four \<^verbatim>\<open>except\<close> clauses name, the handler records
  exactly one incident, with \<^verbatim>\<open>suspend=False\<close>, and no exception leaves the
  invocation.
\<close>

theorem search_exception_incident:
  assumes "init_network_in_thread ev = None"
      and "search_try ev query params w = (Inl e, w1)"
  shows "handled w1 = handled w
         \<and> (\<exists>added. errors w1 = errors w @ added \<and> list_all i_secondary added)
         \<and> (e = SSLError \<longrightarrow>
               snd (search ev query params w) = w1\<lparr>handled := handled w @ [(e, True)]\<rparr>
               \<and> fst (search ev query params w)
                   = (case network_verify ev of Inl e' \<Rightarrow> Some e' | Inr verify \<Rightarrow> None))
         \<and> (e \<notin> {SSLError, TimeoutException, AsyncioTimeoutError, HTTPError, StreamError,
                   SearxEngineCaptchaException, SearxEngineTooManyRequestsException,
                   SearxEngineAccessDeniedException} \<and> (\<forall>name. e \<noteq> NonException name) \<longrightarrow>
               snd (search ev query params w) = w1\<lparr>handled := handled w @ [(e, False)]\<rparr>
               \<and> fst (search ev query params w) = None)"
proof -
  from search_try_frame[OF assms(2)]
  have h: "handled w1 = handled w" and a: "secondary_added w w1" by simp_all
  from a have x: "\<exists>added. errors w1 = errors w @ added \<and> list_all i_secondary added"
    by (simp add: secondary_added_def)
  have "(e = SSLError \<longrightarrow>
               snd (search ev query params w) = w1\<lparr>handled := handled w @ [(e, True)]\<rparr>
               \<and> fst (search ev query params w)
                   = (case network_verify ev of Inl e' \<Rightarrow> Some e' | Inr verify \<Rightarrow> None))
         \<and> (e \<notin> {SSLError, TimeoutException, AsyncioTimeoutError, HTTPError, StreamError,
                   SearxEngineCaptchaException, SearxEngineTooManyRequestsException,
                   SearxEngineAccessDeniedException} \<and> (\<forall>name. e \<noteq> NonException name) \<longrightarrow>
               snd (search ev query params w) = w1\<lparr>handled := handled w @ [(e, False)]\<rparr>
               \<and> fst (search ev query params w) = None)"
    by (cases e)
       (simp_all add: search_def assms handle_exception_def h split: sum.splits)
  with h x show ?thesis by simp
qed

theorem search_exception_incident_witness:
  "search tls_env ''shoes'' shop_params empty_world
     = (None, failed_world\<lparr>handled := [(SSLError, True)]\<rparr>)
   \<and> search broken_parser_env ''shoes'' shop_params empty_world
     = (None, parsed_world\<lparr>handled := [(OtherException ''ValueError'', False)]\<rparr>)
   \<and> list_all i_secondary (errors parsed_world)"
proof -
  have e: "handled empty_world = []" "errors empty_world = []"
    by (simp_all add: empty_world_def)
  have i: "init_network_in_thread tls_env = None"
          "init_network_in_thread broken_parser_env = None"
    by (simp_all add: init_network_in_thread_def tls_env_def broken_parser_env_def
          shop_env_def)
  have v: "network_verify tls_env = Inr ''True''"
    by (simp add: tls_env_def shop_env_def)
  from search_exception_incident[OF i(1) search_try_tls]
       search_exception_incident[OF i(2) search_try_broken_parser] e v
  show ?thesis by (auto simp: prod_eq_iff)
qed

text \<open>
  Claim C9. A basic search logs its own query and no other one, so it starts no further
  search, and it calls the transport at most once; the enrichment is not part of it. The
  enrichment starts at most one nested basic search for each configured site, so a whole
  invocation makes at most one basic search and one transport call more than there are
  configured sites, whatever the configured categories are.
\<close>

theorem nested_search_bound:
  "basic_searches (snd (search_basic ev query params w)) = basic_searches w @ [query]
   \<and> length (net_calls (snd (search_basic ev query params w))) \<le> length (net_calls w) + 1
   \<and> length (basic_searches (snd (add_forced_sitelinks ev search_results params w)))
       \<le> length (basic_searches w) + length (get_or_empty (force_sitelink_websites ev))
   \<and> length (basic_searches (snd (search ev query params w)))
       \<le> length (basic_searches w) + 1 + length (get_or_empty (force_sitelink_websites ev))
   \<and> length (net_calls (snd (search ev query params w)))
       \<le> length (net_calls w) + 1 + length (get_or_empty (force_sitelink_websites ev))"
proof -
  obtain r0 w0 where b: "search_basic ev query params w = (r0, w0)"
    by (cases "search_basic ev query params w") auto
  obtain r1 w1 where a: "add_forced_sitelinks ev search_results params w = (r1, w1)"
    by (cases "add_forced_sitelinks ev search_results params w") auto
  obtain r2 w2 where t: "search_try ev query params w = (r2, w2)"
    by (cases "search_try ev query params w") auto
  have s: "(basic_searches (snd (search ev query params w)) = basic_searches w2
            \<and> net_calls (snd (search ev query params w)) = net_calls w2)
           \<or> snd (search ev query params w) = w"
  proof (cases "init_network_in_thread ev")
    case (Some e)
    then show ?thesis by (simp add: search_def)
  next
    case None
    show ?thesis
    proof (cases r2)
      case (Inl e)
      then show ?thesis
        by (cases e)
           (simp_all add: search_def None t handle_exception_def split: sum.splits)
    next
      case (Inr u)
      then show ?thesis by (simp add: search_def None t)
    qed
  qed
  from search_basic_frame[OF b] add_forced_sitelinks_frame[OF a] search_try_frame[OF t] s b a
  show ?thesis by auto
qed

lemma sites_loop_category_skip:
  assumes "p_category params = Some category"
      and "force_sitelinks_categories ev = Some categories"
      and "category \<notin> set categories"
  shows "sites_loop ev params sites search_results w = (Inr search_results, w)"
  using assms by (induction sites) (simp_all add: subscript_def)

lemma search_empty_url_without_enrichment:
  assumes "init_network_in_thread ev = None"
      and "engine_request ev query params = Inr (params', shared)"
      and "p_url params' = Some []"
      and "get_or_empty (force_sitelinks_categories ev) = []
           \<or> get_or_empty (force_sitelink_websites ev) = []"
  shows "search ev query params w = (None, w\<lparr>basic_searches := basic_searches w @ [query]\<rparr>)"
  using assms
  by (auto simp: search_def search_try_def search_basic_def subscript_def extend_container_def
        Let_def)

subsection \<open>The tracker remover\<close>

text \<open>
  The loop of \<^verbatim>\<open>_clear_trackers\<close> removes one pair for each pair of the parsed query
  whose name matches a pattern. What is left are the pairs whose name matches no
  pattern, in their order; if any pair matched, the query of the parsed URL is the
  encoding of these pairs and the URL of the result is rebuilt from the parsed URL, and
  otherwise the result is unchanged.
\<close>

lemma fold_remove1_filter:
  assumes "\<forall>y \<in> set ys. \<not> P y"
  shows "fold remove1 (filter P xs) (ys @ xs) = ys @ filter (\<lambda>x. \<not> P x) xs"
  using assms
proof (induction xs arbitrary: ys)
  case Nil
  then show ?case by simp
next
  case (Cons x xs)
  show ?case
  proof (cases "P x")
    case True
    with Cons.prems have "x \<notin> set ys" by auto
    then have "remove1 x (ys @ x # xs) = ys @ xs" by (simp add: remove1_append)
    with True Cons.IH[OF Cons.prems] show ?thesis by simp
  next
    case False
    with Cons.prems have "\<forall>y \<in> set (ys @ [x]). \<not> P y" by auto
    from Cons.IH[OF this] False show ?thesis by simp
  qed
qed

lemma clear_loop_eq:
  "clear_loop lib pending parsed_query parsed_url result =
     (if list_ex (\<lambda>nv. is_tracker (fst nv)) pending
      then Result
             (UrlStr (urlunparse lib
                (parsed_url\<lparr>pr_query := urlencode lib
                   (fold remove1 (filter (\<lambda>nv. is_tracker (fst nv)) pending) parsed_query)\<rparr>)))
             (Some (parsed_url\<lparr>pr_query := urlencode lib
                   (fold remove1 (filter (\<lambda>nv. is_tracker (fst nv)) pending) parsed_query)\<rparr>))
             (r_sitelinks result)
      else result)"
proof (induction pending arbitrary: parsed_query parsed_url result)
  case Nil
  show ?case by simp
next
  case (Cons nv rest)
  show ?case
  proof (cases "is_tracker (fst nv)")
    case False
    with Cons.IH show ?thesis by simp
  next
    case True
    have f: "list_ex (\<lambda>nv. is_tracker (fst nv)) rest
             \<or> filter (\<lambda>nv. is_tracker (fst nv)) rest = []"
      by (auto simp: list_ex_iff filter_empty_conv)
    show ?thesis
      using True f
      by (cases result) (auto simp: Cons.IH Let_def list_ex_iff filter_empty_conv)
  qed
qed

lemma clear_trackers_eq:
  assumes "r_parsed_url result = Some parsed_url"
  shows "clear_trackers lib result =
     (if list_ex (\<lambda>nv. is_tracker (fst nv)) (parse_qsl lib (pr_query parsed_url))
      then Result
             (UrlStr (urlunparse lib
                (parsed_url\<lparr>pr_query := urlencode lib
                   (filter (\<lambda>nv. \<not> is_tracker (fst nv))
                      (parse_qsl lib (pr_query parsed_url)))\<rparr>)))
             (Some (parsed_url\<lparr>pr_query := urlencode lib
                   (filter (\<lambda>nv. \<not> is_tracker (fst nv))
                      (parse_qsl lib (pr_query parsed_url)))\<rparr>))
             (r_sitelinks result)
      else result)"
proof -
  have "fold remove1 (filter (\<lambda>nv. is_tracker (fst nv)) xs) ([] @ xs)
          = [] @ filter (\<lambda>nv. \<not> is_tracker (fst nv)) xs" for xs :: "(string \<times> string) list"
    by (rule fold_remove1_filter) simp
  then show ?thesis
    by (simp add: clear_trackers_def assms clear_loop_eq Let_def)
qed


lemma clear_trackers_without_parsed_url:
  "r_parsed_url result = None \<Longrightarrow> clear_trackers lib result = result"
  by (simp add: clear_trackers_def)

lemma on_result_continues: "fst (on_result lib result) = True"
  by (simp add: on_result_def Let_def)

lemmas tracker_defs =
  is_tracker_def regexes_def utm_regex_def email_regex_def hubspot_regex_def
  reddit_regex_def stray_amp_regex_def

lemma parse_item_query: "parse_qsl plain_lib (pr_query item_url) = [(''utm_source'', ''news'')]"
  by (simp add: parse_qsl_def item_url_def plain_lib_def plus_to_space_def)

lemma clear_trackers_keeps_order:
  "clear_trackers plain_lib ordered_result
     = Result (UrlStr ''https://store.example.com/item?b=2&a=1&b=2'')
         (Some (ordered_url\<lparr>pr_query := ''b=2&a=1&b=2''\<rparr>)) None"
  by (simp add: clear_trackers_def ordered_result_def ordered_url_def parse_qsl_def
        plain_lib_def plus_to_space_def urlencode_def tracker_defs Let_def)

text \<open>
  Claim C10 says that exactly the parameters whose name matches a tracker pattern are
  removed from the query string. The result without a parsed URL is unchanged and
  \<^verbatim>\<open>on_result\<close> returns \<^verbatim>\<open>True\<close> (the two lemmas above), and of the pairs that
  \<^verbatim>\<open>parse_qsl\<close> returns exactly the matching ones are removed (lemma
  \<open>clear_trackers_eq\<close>). But \<^verbatim>\<open>parse_qsl\<close> is called with its default arguments and
  drops the parameters with an empty value: in the query \<open>ref=&utm_source=news\<close> the
  parameter \<open>ref\<close>, whose name matches no pattern, is removed together with the tracker.
\<close>

theorem blank_parameter_removed:
  "r_parsed_url tracked_result = Some item_url
   \<and> pr_query item_url = ''ref=&utm_source=news''
   \<and> \<not> is_tracker ''ref''
   \<and> clear_trackers plain_lib tracked_result
       = Result (UrlStr ''https://store.example.com/item'')
           (Some (item_url\<lparr>pr_query := []\<rparr>)) None"
  by (simp add: clear_trackers_def tracked_result_def item_url_def parse_qsl_def
        plain_lib_def plus_to_space_def urlencode_def tracker_defs Let_def)

end
